theory Spec2Isabelle
  imports Complex_Main
begin

section \<open>Python values and exceptions\<close>

text \<open>
  The two notebooks (the Ising model exercise and the variational quantum classifier,
  \<open>VQC.ipynb\<close>) are plain Python scripts over PennyLane, PyTorch, pandas and
  scikit-learn. Floating-point numbers are modelled as reals, Python lists and NumPy
  arrays as lists, and every exception as a value: a computation returns
  \<open>py_error + 'a\<close>, with \<open>Inl\<close> for the exception that reaches the notebook user.
\<close>

datatype py_error =
    IndexError
  | KeyError string
  | NameError string
  | ZeroDivisionError
  | ValueError
  | FileNotFoundError string
  | LibraryError string

definition bind_err :: "py_error + 'a \<Rightarrow> ('a \<Rightarrow> py_error + 'b) \<Rightarrow> py_error + 'b" where
  "bind_err m f = (case m of Inl e \<Rightarrow> Inl e | Inr v \<Rightarrow> f v)"

text \<open>Indexing with a non-negative constant or loop index, \<open>xs[i]\<close>.\<close>

definition getitem :: "'a list \<Rightarrow> nat \<Rightarrow> py_error + 'a" where
  "getitem xs i = (if i < length xs then Inr (xs ! i) else Inl IndexError)"

text \<open>A list comprehension \<open>[f(x) for x in xs]\<close> whose body may raise.\<close>

fun map_err :: "('a \<Rightarrow> py_error + 'b) \<Rightarrow> 'a list \<Rightarrow> py_error + 'b list" where
  "map_err f [] = Inr []"
| "map_err f (x # xs) =
     (case f x of
        Inl e \<Rightarrow> Inl e
      | Inr y \<Rightarrow> (case map_err f xs of Inl e \<Rightarrow> Inl e | Inr ys \<Rightarrow> Inr (y # ys)))"

text \<open>A \<open>for\<close> loop over a finite sequence whose body may raise.\<close>

fun for_loop :: "('a \<Rightarrow> 's \<Rightarrow> py_error + 's) \<Rightarrow> 'a list \<Rightarrow> 's \<Rightarrow> py_error + 's" where
  "for_loop body [] s = Inr s"
| "for_loop body (i # rest) s =
     (case body i s of Inl e \<Rightarrow> Inl e | Inr s' \<Rightarrow> for_loop body rest s')"

section \<open>Quantum operations, measurements and devices\<close>

text \<open>
  A PennyLane quantum function does not compute anything itself: each gate call appends
  an operation to the tape being recorded, and the function returns the measurements to
  take. The QNode wrapper then hands tape and measurement to the device. The model keeps
  the tape as a list of operations, in the order of the calls. What the device computes
  from a tape is PennyLane's business and is a parameter \<open>execute\<close> of every function
  that runs a circuit; it may raise.
\<close>

datatype operation =
    Rot real real real nat
  | CNOT nat nat
  | BasisEmbedding "int list" "nat list"

datatype measurement = Expval_PauliZ nat

record device =
  dev_name :: string
  dev_wires :: nat

definition qml_device :: "string \<Rightarrow> nat \<Rightarrow> device" where
  "qml_device name wires = \<lparr>dev_name = name, dev_wires = wires\<rparr>"

type_synonym executor = "device \<Rightarrow> operation list \<Rightarrow> measurement \<Rightarrow> py_error + real"

section \<open>The Ising notebook: circuit and cost\<close>

text \<open>
  \<^verbatim>\<open>
  dev = qml.device("default.qubit", wires=3)

  @qml.qnode(dev, interface="torch")
  def circuit(p1, p2):
      qml.Rot(p1[0], p1[1], p1[2], wires=1)
      qml.Rot(p2[0], p2[1], p2[2], wires=2)
      return [qml.expval(qml.PauliZ(i)) for i in range(3)]
  \<close>
  \<open>circuit_func\<close> is the decorated function's body, \<open>circuit\<close> the QNode.
\<close>

definition ising_dev :: device where
  "ising_dev = qml_device ''default.qubit'' 3"

definition circuit_func ::
  "real list \<Rightarrow> real list \<Rightarrow> py_error + (operation list \<times> measurement list)" where
  "circuit_func p1 p2 =
     bind_err (getitem p1 0) (\<lambda>a0. bind_err (getitem p1 1) (\<lambda>a1. bind_err (getitem p1 2) (\<lambda>a2.
     bind_err (getitem p2 0) (\<lambda>b0. bind_err (getitem p2 1) (\<lambda>b1. bind_err (getitem p2 2) (\<lambda>b2.
       Inr ([Rot a0 a1 a2 1, Rot b0 b1 b2 2], map Expval_PauliZ [0..<3])))))))"

definition circuit :: "executor \<Rightarrow> device \<Rightarrow> real list \<Rightarrow> real list \<Rightarrow> py_error + real list" where
  "circuit execute dev p1 p2 =
     bind_err (circuit_func p1 p2) (\<lambda>(ops, ms). map_err (execute dev ops) ms)"

text \<open>
  \<^verbatim>\<open>
  def cost(var1, var2):
      spins = circuit(var1, var2)
      energy = -(1 * spins[0] * spins[1]) - (-1 * spins[1] * spins[2])
      return energy
  \<close>
\<close>

definition cost :: "executor \<Rightarrow> device \<Rightarrow> real list \<Rightarrow> real list \<Rightarrow> py_error + real" where
  "cost execute dev var1 var2 =
     bind_err (circuit execute dev var1 var2) (\<lambda>spins.
     bind_err (getitem spins 0) (\<lambda>s0. bind_err (getitem spins 1) (\<lambda>s1.
     bind_err (getitem spins 2) (\<lambda>s2.
       Inr (- (1 * s0 * s1) - (- 1 * s1 * s2))))))"

text \<open>
  The Hamiltonian as the notebook's first markdown cell states it, for a chain of spins
  with nearest-neighbour couplings \<open>J\<close>: \<open>H = - (\<Sum>i. J i * s i * s (i + 1))\<close>. This
  definition follows the text, not the code; \<open>cost\<close> above is the code.
\<close>

definition stated_hamiltonian :: "real list \<Rightarrow> real list \<Rightarrow> real" where
  "stated_hamiltonian J s = - (\<Sum>i\<leftarrow>[0..<length J]. J ! i * s ! i * s ! (i + 1))"

text \<open>
  A device for closed examples. The notebook's markdown gives the matrix of
  \<open>Rot(\<phi>, \<theta>, \<omega>)\<close>; applied to the state \<open>|0>\<close> it yields the Pauli-Z expectation
  \<open>cos \<theta>\<close>, and an untouched wire stays at expectation 1. \<open>product_device\<close> answers
  exactly these two cases and refuses every other tape.
\<close>

fun wires_of :: "operation \<Rightarrow> nat list" where
  "wires_of (Rot phi theta omega w) = [w]"
| "wires_of (CNOT c t) = [c, t]"
| "wires_of (BasisEmbedding features ws) = ws"

fun product_device :: executor where
  "product_device dev ops (Expval_PauliZ w) =
     (if dev_wires dev \<le> w then Inl (LibraryError ''WireError'')
      else (case filter (\<lambda>opn. w \<in> set (wires_of opn)) ops of
              [] \<Rightarrow> Inr 1
            | [Rot phi theta omega v] \<Rightarrow> Inr (cos theta)
            | _ \<Rightarrow> Inl (LibraryError ''unsupported tape'')))"

text \<open>
  What a simulator device with \<open>dev_wires\<close> wires accepts: every operation and the
  measurement act on wires of the device, a \<open>CNOT\<close> on two different wires, a basis
  embedding of one bit per wire on distinct wires. \<open>checking_device\<close>, for closed
  examples, answers 1 on a tape it accepts and raises on any other.
\<close>

fun op_supported :: "device \<Rightarrow> operation \<Rightarrow> bool" where
  "op_supported dev (Rot phi theta omega w) = (w < dev_wires dev)"
| "op_supported dev (CNOT c t) = (c < dev_wires dev \<and> t < dev_wires dev \<and> c \<noteq> t)"
| "op_supported dev (BasisEmbedding features ws) =
     (length features = length ws \<and> list_all (\<lambda>b. b = 0 \<or> b = 1) features
      \<and> list_all (\<lambda>w. w < dev_wires dev) ws \<and> distinct ws)"

fun tape_supported :: "device \<Rightarrow> operation list \<Rightarrow> measurement \<Rightarrow> bool" where
  "tape_supported dev ops (Expval_PauliZ w) =
     (list_all (op_supported dev) ops \<and> w < dev_wires dev)"

definition checking_device :: executor where
  "checking_device dev ops m =
     (if tape_supported dev ops m then Inr 1 else Inl (LibraryError ''WireError''))"

section \<open>The classifier's circuit (VQC.ipynb)\<close>

text \<open>
  \<^verbatim>\<open>
  n_qubits = 4
  n_layers = 2
  dev      = qml.device("default.qubit", wires = n_qubits)

  def dataEmbedding(x):
      qml.BasisEmbedding(x, wires=range(0, n_qubits))

  def layer(W):
      for i in range(n_qubits):
          qml.Rot(W[i,0], W[i,1], W[i,2], wires=i)
      for i in range(n_qubits-1):
          qml.CNOT(wires=[i, i+1])
      qml.CNOT(wires=[n_qubits-1, 0])

  @qml.qnode(dev, interface="autograd")
  def circuitBuild(weights, x):
      dataEmbedding(x)
      for W in weights:
          layer(W)
      return qml.expval(qml.PauliZ(0))

  def variational_classifier(weights, bias, x):
      return circuitBuild(weights, x) + bias
  \<close>
  Each function takes the tape recorded so far and returns it extended. \<open>W[i,j]\<close> on a
  two-dimensional array raises IndexError when the row or the column is out of range.
  \<open>qml.BasisEmbedding\<close> checks its argument when it is called and raises ValueError
  unless the features are one bit per wire (PennyLane's documented behaviour).
\<close>

definition n_qubits :: nat where
  "n_qubits = 4"

definition n_layers :: nat where
  "n_layers = 2"

definition vqc_dev :: device where
  "vqc_dev = qml_device ''default.qubit'' n_qubits"

definition getitem2 :: "'a list list \<Rightarrow> nat \<Rightarrow> nat \<Rightarrow> py_error + 'a" where
  "getitem2 W i j = bind_err (getitem W i) (\<lambda>row. getitem row j)"

definition dataEmbedding :: "int list \<Rightarrow> operation list \<Rightarrow> py_error + operation list" where
  "dataEmbedding x tape =
     (if length x = n_qubits \<and> list_all (\<lambda>b. b = 0 \<or> b = 1) x
      then Inr (tape @ [BasisEmbedding x [0..<n_qubits]])
      else Inl ValueError)"

definition layer :: "real list list \<Rightarrow> operation list \<Rightarrow> py_error + operation list" where
  "layer W tape =
     bind_err (for_loop (\<lambda>i t.
                 bind_err (getitem2 W i 0) (\<lambda>a. bind_err (getitem2 W i 1) (\<lambda>b.
                 bind_err (getitem2 W i 2) (\<lambda>c. Inr (t @ [Rot a b c i])))))
               [0..<n_qubits] tape) (\<lambda>t1.
     bind_err (for_loop (\<lambda>i t. Inr (t @ [CNOT i (i + 1)])) [0..<n_qubits - 1] t1) (\<lambda>t2.
       Inr (t2 @ [CNOT (n_qubits - 1) 0])))"

definition circuitBuild_func ::
  "real list list list \<Rightarrow> int list \<Rightarrow> py_error + (operation list \<times> measurement)" where
  "circuitBuild_func weights x =
     bind_err (dataEmbedding x []) (\<lambda>t0.
     bind_err (for_loop layer weights t0) (\<lambda>t.
       Inr (t, Expval_PauliZ 0)))"

definition circuitBuild ::
  "executor \<Rightarrow> device \<Rightarrow> real list list list \<Rightarrow> int list \<Rightarrow> py_error + real" where
  "circuitBuild execute dev weights x =
     bind_err (circuitBuild_func weights x) (\<lambda>(ops, m). execute dev ops m)"

definition variational_classifier ::
  "executor \<Rightarrow> device \<Rightarrow> real list list list \<Rightarrow> real \<Rightarrow> int list \<Rightarrow> py_error + real" where
  "variational_classifier execute dev weights bias x =
     bind_err (circuitBuild execute dev weights x) (\<lambda>v. Inr (v + bias))"

section \<open>The classifier's loss and accuracy (VQC.ipynb)\<close>

text \<open>
  \<^verbatim>\<open>
  def squareLoss(labels, predictions):
      loss = 0
      for l, p in zip(labels, predictions):
          loss = loss + (l-p)**2
      loss = loss/len(labels)
      return loss
  \<close>
  The loop runs over \<open>zip\<close>, which stops at the shorter sequence; the divisor is the
  length of \<open>labels\<close>. With no labels the loop body never runs, \<open>loss\<close> is still the
  integer 0 and \<open>0/0\<close> raises ZeroDivisionError.
\<close>

fun squareLoss_loop :: "real \<Rightarrow> (real \<times> real) list \<Rightarrow> real" where
  "squareLoss_loop loss [] = loss"
| "squareLoss_loop loss ((l, p) # rest) = squareLoss_loop (loss + (l - p)\<^sup>2) rest"

definition squareLoss :: "real list \<Rightarrow> real list \<Rightarrow> py_error + real" where
  "squareLoss labels predictions =
     (let loss = squareLoss_loop 0 (zip labels predictions)
      in if length labels = 0 then Inl ZeroDivisionError
         else Inr (loss / real (length labels)))"

text \<open>
  \<^verbatim>\<open>
  def accuracy(labels, predictions):
      loss = 0
      for l, p in zip(labels, predictions):
          if abs(l-p) < 1e-5:
              loss = loss + 1
      loss = loss/len(labels)
      return loss
  \<close>
\<close>

fun accuracy_loop :: "nat \<Rightarrow> (real \<times> real) list \<Rightarrow> nat" where
  "accuracy_loop loss [] = loss"
| "accuracy_loop loss ((l, p) # rest) =
     accuracy_loop (if \<bar>l - p\<bar> < 1 / 100000 then loss + 1 else loss) rest"

definition accuracy :: "real list \<Rightarrow> real list \<Rightarrow> py_error + real" where
  "accuracy labels predictions =
     (let loss = accuracy_loop 0 (zip labels predictions)
      in if length labels = 0 then Inl ZeroDivisionError
         else Inr (real loss / real (length labels)))"

text \<open>
  \<^verbatim>\<open>
  def cost(weights, bias, X, Y):
      predictions = [variational_classifier(weights, bias, x) for x in X]
      return squareLoss(Y, predictions)
  \<close>
\<close>

definition vqc_cost ::
  "executor \<Rightarrow> device \<Rightarrow> real list list list \<Rightarrow> real \<Rightarrow> int list list \<Rightarrow> real list
   \<Rightarrow> py_error + real" where
  "vqc_cost execute dev weights bias X Y =
     bind_err (map_err (variational_classifier execute dev weights bias) X) (\<lambda>predictions.
       squareLoss Y predictions)"

section \<open>The gate sequences and shapes the specification names\<close>

text \<open>
  These definitions follow the specification's words, to be compared with the code above:
  the eight operations of one layer (one \<open>Rot\<close> per wire, then the ring of \<open>CNOT\<close>s), and
  the shapes of the arrays the notebooks pass. \<open>layer_shape\<close> asks for what \<open>layer\<close>
  indexes, at least 4 rows of at least 3 angles; \<open>has_shape3 a b c\<close> is NumPy's
  \<open>shape == (a, b, c)\<close>; a bit vector is what \<open>BasisEmbedding\<close> accepts on 4 wires.
\<close>

definition layer_ops :: "real list list \<Rightarrow> operation list" where
  "layer_ops W =
     [Rot (W ! 0 ! 0) (W ! 0 ! 1) (W ! 0 ! 2) 0,
      Rot (W ! 1 ! 0) (W ! 1 ! 1) (W ! 1 ! 2) 1,
      Rot (W ! 2 ! 0) (W ! 2 ! 1) (W ! 2 ! 2) 2,
      Rot (W ! 3 ! 0) (W ! 3 ! 1) (W ! 3 ! 2) 3,
      CNOT 0 1, CNOT 1 2, CNOT 2 3, CNOT 3 0]"

definition layer_shape :: "real list list \<Rightarrow> bool" where
  "layer_shape W = (n_qubits \<le> length W \<and> (\<forall>i<n_qubits. 3 \<le> length (W ! i)))"

definition has_shape3 :: "nat \<Rightarrow> nat \<Rightarrow> nat \<Rightarrow> 'a list list list \<Rightarrow> bool" where
  "has_shape3 a b c w =
     (length w = a \<and> (\<forall>W\<in>set w. length W = b \<and> (\<forall>r\<in>set W. length r = c)))"

definition bit_vector :: "int list \<Rightarrow> bool" where
  "bit_vector x = (length x = 4 \<and> (\<forall>b\<in>set x. b = 0 \<or> b = 1))"

section \<open>The Ising notebook: optimisation\<close>

text \<open>
  \<^verbatim>\<open>
  torch.manual_seed(56)
  p1 = Variable((np.pi * torch.rand(3, dtype=torch.float64)), requires_grad=True)
  p2 = Variable((np.pi * torch.rand(3, dtype=torch.float64)), requires_grad=True)
  var_init = [p1, p2]
  cost_init = cost(p1, p2)

  opt = torch.optim.SGD(var_init, lr=0.1)
  def closure():
      opt.zero_grad()
      loss = cost(p1, p2)
      loss.backward()
      return loss
  var_pt = [var_init]
  cost_pt = [cost_init]
  x = [0]
  for i in range(100):
      opt.step(closure)
      if (i + 1) % 5 == 0:
          x.append(i)
          p1n, p2n = opt.param_groups[0]["params"]
          costn = cost(p1n, p2n)
          var_pt.append([p1n, p2n])
          cost_pt.append(costn)
          print("Energy after step {:5d}: {: .7f} | Angles: {}".format(
              i+1, costn, [p1n.detach().numpy(), p2n.detach().numpy()]),"\n")
  \<close>
  The kernel's variables are the fields of a record. The optimiser is PyTorch's: the
  parameter \<open>sgd_step\<close> stands for \<open>opt.step(closure)\<close>, with the optimiser's own state,
  the loss the closure evaluates and the two parameter tensors it updates in place; it may
  raise. The random initial angles \<open>p1\<close>, \<open>p2\<close> are inputs. \<open>var_pt\<close> only collects
  references to the two tensors and is left out. \<open>g_printed\<close> is the printed output,
  one entry per line.
\<close>

record 'o ising_state =
  g_dev :: device
  g_p1 :: "real list"
  g_p2 :: "real list"
  g_opt :: 'o
  g_x :: "nat list"
  g_cost_pt :: "real list"
  g_printed :: "(nat \<times> real \<times> real list \<times> real list) list"

type_synonym 'o sgd =
  "'o \<Rightarrow> (real list \<Rightarrow> real list \<Rightarrow> py_error + real) \<Rightarrow> real list \<Rightarrow> real list
   \<Rightarrow> py_error + ('o \<times> real list \<times> real list)"

definition ising_start ::
  "executor \<Rightarrow> 'o \<Rightarrow> real list \<Rightarrow> real list \<Rightarrow> py_error + 'o ising_state" where
  "ising_start execute opt0 p1 p2 =
     bind_err (cost execute ising_dev p1 p2) (\<lambda>cost_init.
       Inr \<lparr>g_dev = ising_dev, g_p1 = p1, g_p2 = p2, g_opt = opt0, g_x = [0],
            g_cost_pt = [cost_init], g_printed = []\<rparr>)"

definition ising_iteration ::
  "executor \<Rightarrow> 'o sgd \<Rightarrow> nat \<Rightarrow> 'o ising_state \<Rightarrow> py_error + 'o ising_state" where
  "ising_iteration execute sgd_step i s =
     bind_err (sgd_step (g_opt s) (cost execute (g_dev s)) (g_p1 s) (g_p2 s))
       (\<lambda>(opt', p1n, p2n).
          let s1 = s\<lparr>g_opt := opt', g_p1 := p1n, g_p2 := p2n\<rparr>
          in if (i + 1) mod 5 = 0
             then bind_err (cost execute (g_dev s1) p1n p2n) (\<lambda>costn.
                    Inr (s1\<lparr>g_x := g_x s1 @ [i],
                            g_cost_pt := g_cost_pt s1 @ [costn],
                            g_printed := g_printed s1 @ [(i + 1, costn, p1n, p2n)]\<rparr>))
             else Inr s1)"

definition ising_training ::
  "executor \<Rightarrow> 'o sgd \<Rightarrow> 'o \<Rightarrow> real list \<Rightarrow> real list \<Rightarrow> py_error + 'o ising_state" where
  "ising_training execute sgd_step opt0 p1 p2 =
     bind_err (ising_start execute opt0 p1 p2)
       (for_loop (ising_iteration execute sgd_step) [0..<100])"

text \<open>
  Counting the optimiser's calls. \<open>counted_sgd\<close> wraps any optimiser so that its state
  carries the number of calls that returned; the loop itself keeps no such counter.
\<close>

definition counted_sgd :: "'o sgd \<Rightarrow> (nat \<times> 'o) sgd" where
  "counted_sgd sgd_step st loss p1 p2 =
     (case sgd_step (snd st) loss p1 p2 of
        Inl e \<Rightarrow> Inl e
      | Inr (st', q1, q2) \<Rightarrow> Inr ((Suc (fst st), st'), q1, q2))"

text \<open>
  An optimiser for closed examples: like \<open>opt.step(closure)\<close> it evaluates the loss at
  the current parameters and lets its exception through; it then leaves the parameters
  where they are (a learning rate of zero).
\<close>

definition plain_sgd :: "unit sgd" where
  "plain_sgd st loss p1 p2 = bind_err (loss p1 p2) (\<lambda>c. Inr (st, p1, p2))"

section \<open>The classifier: parameters and optimisation (VQC.ipynb)\<close>

text \<open>
  \<^verbatim>\<open>
  npl.random.seed(0)
  weights_init = 0.01 * npl.random.randn(n_layers, n_qubits, 3, requires_grad=True)
  bias_init    = npl.array(0.0, requires_grad=True)
  \<close>
  \<open>randn(a, b, c)\<close> fills an array of shape \<open>(a, b, c)\<close> with samples; the samples come
  from NumPy's generator and are a parameter.
\<close>

definition randn3 :: "(nat \<Rightarrow> real) \<Rightarrow> nat \<Rightarrow> nat \<Rightarrow> nat \<Rightarrow> real list list list" where
  "randn3 sample a b c =
     map (\<lambda>i. map (\<lambda>j. map (\<lambda>k. sample ((i * b + j) * c + k)) [0..<c]) [0..<b]) [0..<a]"

definition weights_init :: "(nat \<Rightarrow> real) \<Rightarrow> real list list list" where
  "weights_init sample = map (map (map (\<lambda>v. (1 / 100) * v))) (randn3 sample n_layers n_qubits 3)"

definition bias_init :: real where
  "bias_init = 0"

text \<open>
  \<^verbatim>\<open>
  opt        = AdamOptimizer(0.125)
  n_it       = 35
  batch_size = math.floor(len(X_train)/n_it)

  weights = weights_init
  bias    = bias_init
  for it in range(n_it):
      batch_index         = npl.random.randint(0, len(X_train), (batch_size,))
      X_batch             = X_train[batch_index]
      Y_batch             = Y_train[batch_index]
      weights, bias, _, _ = opt.step(cost, weights, bias, X_batch, Y_batch)
      predictions         = [npl.sign(variational_classifier(weights, bias, x)) for x in X_train]
      acc                 = accuracy(Y_train, predictions)
      print("Iter: {:5d} | Cost: {:0.7f} | Accuracy: {:0.7f} ".format(
              it + 1, cost(weights, bias, X_train, Y_train), acc))
  \<close>
  \<open>adam_step\<close> stands for PennyLane's \<open>opt.step\<close> (optimiser state, objective, the two
  trainable arguments) and \<open>randint\<close> for NumPy's generator (generator state, low, high,
  size); both may raise. \<open>v_printed\<close> is the printed output. \<open>X_train\<close> is the array
  the data cell has bound. \<open>Y_train\<close> is \<open>None\<close> when the kernel has no such name, and
  reading it then raises NameError.
\<close>

record ('o, 'g) vqc_state =
  v_dev :: device
  v_weights :: "real list list list"
  v_bias :: real
  v_opt :: 'o
  v_rng :: 'g
  v_printed :: "(nat \<times> real \<times> real) list"

type_synonym 'o adam =
  "'o \<Rightarrow> (real list list list \<Rightarrow> real \<Rightarrow> py_error + real) \<Rightarrow> real list list list \<Rightarrow> real
   \<Rightarrow> py_error + ('o \<times> real list list list \<times> real)"

type_synonym 'g randint = "'g \<Rightarrow> nat \<Rightarrow> nat \<Rightarrow> nat \<Rightarrow> py_error + (nat list \<times> 'g)"

definition n_it :: nat where
  "n_it = 35"

definition batch_size :: "int list list \<Rightarrow> nat" where
  "batch_size X_train = length X_train div n_it"

definition vqc_start :: "'o \<Rightarrow> 'g \<Rightarrow> real list list list \<Rightarrow> real \<Rightarrow> ('o, 'g) vqc_state" where
  "vqc_start opt0 rng0 weights0 bias0 =
     \<lparr>v_dev = vqc_dev, v_weights = weights0, v_bias = bias0, v_opt = opt0, v_rng = rng0,
      v_printed = []\<rparr>"

definition name_value :: "string \<Rightarrow> 'a option \<Rightarrow> py_error + 'a" where
  "name_value name binding = (case binding of None \<Rightarrow> Inl (NameError name) | Some v \<Rightarrow> Inr v)"

definition vqc_iteration ::
  "executor \<Rightarrow> 'o adam \<Rightarrow> 'g randint \<Rightarrow> int list list \<Rightarrow> real list option \<Rightarrow> nat
   \<Rightarrow> ('o, 'g) vqc_state \<Rightarrow> py_error + ('o, 'g) vqc_state" where
  "vqc_iteration execute adam_step randint X_train Y_train it s =
     bind_err (randint (v_rng s) 0 (length X_train) (batch_size X_train))
       (\<lambda>(batch_index, rng').
     bind_err (map_err (getitem X_train) batch_index) (\<lambda>X_batch.
     bind_err (bind_err (name_value ''Y_train'' Y_train)
                 (\<lambda>Y. map_err (getitem Y) batch_index)) (\<lambda>Y_batch.
     bind_err (adam_step (v_opt s) (\<lambda>w b. vqc_cost execute (v_dev s) w b X_batch Y_batch)
                 (v_weights s) (v_bias s))
       (\<lambda>(opt', weights', bias').
     bind_err (map_err (\<lambda>x. bind_err (variational_classifier execute (v_dev s) weights' bias' x)
                              (\<lambda>v. Inr (sgn v))) X_train) (\<lambda>predictions.
     bind_err (bind_err (name_value ''Y_train'' Y_train) (\<lambda>Y. accuracy Y predictions)) (\<lambda>acc.
     bind_err (bind_err (name_value ''Y_train'' Y_train)
                 (\<lambda>Y. vqc_cost execute (v_dev s) weights' bias' X_train Y)) (\<lambda>c.
       Inr (s\<lparr>v_weights := weights', v_bias := bias', v_opt := opt', v_rng := rng',
              v_printed := v_printed s @ [(it + 1, c, acc)]\<rparr>))))))))"

definition vqc_training ::
  "executor \<Rightarrow> 'o adam \<Rightarrow> 'g randint \<Rightarrow> 'o \<Rightarrow> 'g \<Rightarrow> real list list list \<Rightarrow> real
   \<Rightarrow> int list list \<Rightarrow> real list option \<Rightarrow> py_error + ('o, 'g) vqc_state" where
  "vqc_training execute adam_step randint opt0 rng0 weights0 bias0 X_train Y_train =
     for_loop (vqc_iteration execute adam_step randint X_train Y_train) [0..<n_it]
       (vqc_start opt0 rng0 weights0 bias0)"

definition counted_adam :: "'o adam \<Rightarrow> (nat \<times> 'o) adam" where
  "counted_adam adam_step st objective weights bias =
     (case adam_step (snd st) objective weights bias of
        Inl e \<Rightarrow> Inl e
      | Inr (st', w', b') \<Rightarrow> Inr ((Suc (fst st), st'), w', b'))"

text \<open>
  For closed examples: an optimiser that evaluates the objective at the current
  parameters, lets its exception through and leaves the parameters where they are; a
  generator that always draws row 0, returning an empty array when asked for none; and a
  training set of 35 equal rows, the smallest with a non-empty batch.
\<close>

definition plain_adam :: "unit adam" where
  "plain_adam st objective weights bias =
     bind_err (objective weights bias) (\<lambda>c. Inr (st, weights, bias))"

definition first_row_randint :: "unit randint" where
  "first_row_randint st low high n =
     (if n = 0 then Inr ([], st)
      else if low < high then Inr (replicate n low, st)
      else Inl ValueError)"

definition rows35 :: "int list list" where
  "rows35 = replicate 35 [1, 1, 0, 1]"

definition labels35 :: "real list" where
  "labels35 = replicate 35 1"

section \<open>The classifier: preparing the data (VQC.ipynb)\<close>

text \<open>
  \<^verbatim>\<open>
  train = pd.read_csv('TitanicData/train.csv')
  train['Pclass'] = train['Pclass'].astype(str)
  train = pd.concat([train, pd.get_dummies(train[['Pclass', 'Sex', 'Embarked']])], axis=1)

  train['Age'] = train['Age'].fillna(train['Age'].median())
  train['is_child'] = train['Age'].map(lambda x: 1 if x < 12 else 0)

  model_vars = ['is_child', 'Pclass_1', 'Pclass_2', 'Sex_female']
  X_train, X_test, y_train, y_test = train_test_split(train[model_vars], train['Survived'],
                                                      test_size=0.10, random_state=42,
                                                      stratify=train['Survived'])
  X_train = npl.array(X_train.values, requires_grad=False)
  Y_train = npl.array(y_train.values * 2 - np.ones(len(y_train)), requires_grad=False)
  \<close>
  and in the test cell
  \<^verbatim>\<open>
  X_test = npl.array(X_test.values, requires_grad=False)
  Y_test = npl.array(y_test.values * 2 - npl.ones(len(y_test)), requires_grad=False)
  \<close>
  A row of the CSV file keeps the columns the notebook reads; a missing cell (NaN) is
  \<open>None\<close>. The pandas operations are modelled by what their documentation says:
  \<open>get_dummies\<close> adds, for every value \<open>v\<close> occurring in column \<open>c\<close>, an indicator column
  named \<open>c_v\<close> (written here as 0 and 1; where pandas stores \<open>False\<close> and \<open>True\<close>,
  Python compares them equal to 0 and 1); \<open>median\<close> skips missing cells and is NaN when nothing is left;
  \<open>fillna\<close> replaces missing cells; a comparison with NaN is false; selecting a column
  that does not exist raises KeyError. \<open>read_csv\<close> and \<open>train_test_split\<close> are
  parameters: the first may raise, the second returns the row numbers of the two parts.
\<close>

record passenger =
  Survived :: int
  Pclass :: int
  Sex :: string
  Age :: "real option"
  Embarked :: "string option"

fun str_nat :: "nat \<Rightarrow> string" where
  "str_nat n =
     (if n < 10 then [''0123456789'' ! n]
      else str_nat (n div 10) @ [''0123456789'' ! (n mod 10)])"

declare str_nat.simps [simp del]

definition str_int :: "int \<Rightarrow> string" where
  "str_int i = (if i < 0 then CHR ''-'' # str_nat (nat (- i)) else str_nat (nat i))"

definition get_dummies :: "(string \<times> string option list) list \<Rightarrow> (string \<times> int list) list" where
  "get_dummies cols =
     concat (map (\<lambda>(col, vals).
               map (\<lambda>v. (col @ ''_'' @ v, map (\<lambda>u. if u = Some v then 1 else 0) vals))
                   (remdups (List.map_filter id vals)))
             cols)"

definition median :: "real list \<Rightarrow> real option" where
  "median xs =
     (let s = sort xs; n = length s
      in if n = 0 then None
         else if odd n then Some (s ! (n div 2))
         else Some ((s ! (n div 2 - 1) + s ! (n div 2)) / 2))"

definition fillna_median :: "real option list \<Rightarrow> real option list" where
  "fillna_median ages =
     (let m = median (List.map_filter id ages)
      in map (\<lambda>a. case a of None \<Rightarrow> m | Some v \<Rightarrow> Some v) ages)"

definition is_child :: "real option \<Rightarrow> int" where
  "is_child a = (case a of None \<Rightarrow> 0 | Some v \<Rightarrow> if v < 12 then 1 else 0)"

definition feature_columns :: "passenger list \<Rightarrow> (string \<times> int list) list" where
  "feature_columns train =
     get_dummies [(''Pclass'', map (\<lambda>r. Some (str_int (Pclass r))) train),
                  (''Sex'', map (\<lambda>r. Some (Sex r)) train),
                  (''Embarked'', map Embarked train)]
     @ [(''is_child'', map is_child (fillna_median (map Age train)))]"

definition model_vars :: "string list" where
  "model_vars = [''is_child'', ''Pclass_1'', ''Pclass_2'', ''Sex_female'']"

definition select_columns :: "(string \<times> int list) list \<Rightarrow> string list \<Rightarrow> py_error + int list list" where
  "select_columns cols names =
     map_err (\<lambda>n. case map_of cols n of None \<Rightarrow> Inl (KeyError n) | Some c \<Rightarrow> Inr c) names"

text \<open>\<open>.values\<close>: the selected columns as an array of rows.\<close>

definition rows_of :: "nat \<Rightarrow> int list list \<Rightarrow> int list list" where
  "rows_of n cols = map (\<lambda>i. map (\<lambda>c. c ! i) cols) [0..<n]"

definition features :: "passenger list \<Rightarrow> py_error + int list list" where
  "features train =
     bind_err (select_columns (feature_columns train) model_vars) (\<lambda>cols.
       Inr (rows_of (length train) cols))"

type_synonym splitter = "nat \<Rightarrow> int list \<Rightarrow> py_error + (nat list \<times> nat list)"

definition train_test_features ::
  "splitter \<Rightarrow> passenger list
   \<Rightarrow> py_error + (int list list \<times> int list list \<times> int list \<times> int list)" where
  "train_test_features split train =
     bind_err (features train) (\<lambda>X.
     bind_err (split (length train) (map Survived train)) (\<lambda>(train_idx, test_idx).
     bind_err (map_err (getitem X) train_idx) (\<lambda>X_train.
     bind_err (map_err (getitem X) test_idx) (\<lambda>X_test.
     bind_err (map_err (getitem (map Survived train)) train_idx) (\<lambda>y_train.
     bind_err (map_err (getitem (map Survived train)) test_idx) (\<lambda>y_test.
       Inr (X_train, X_test, y_train, y_test)))))))"


text \<open>
  The labels. Both lines compute \<open>y * 2 - ones(len(y))\<close>; they differ in the module name
  in front of \<open>ones\<close>. A name is looked up in the kernel's global namespace when the line
  runs, and a name that is not there raises NameError. \<open>vqc_globals\<close> lists the names the
  notebook has bound by then, in the order of its cells; \<open>star\<close> stands for the names that
  \<open>from qiskit.visualization import *\<close> brings in, which the notebook does not show.
\<close>

definition vqc_globals :: "string list \<Rightarrow> string list" where
  "vqc_globals star =
     [''qml'', ''pd'', ''math'', ''npl'', ''AdamOptimizer'', ''train_test_split'',
      ''accuracy_score'', ''f1_score'', ''precision_score'', ''recall_score'',
      ''n_qubits'', ''n_layers'', ''dev'', ''dataEmbedding'', ''QuantumCircuit'', ''Parameter'']
     @ star
     @ [''qc'', ''i'', ''layer'', ''circuitBuild'', ''variational_classifier'', ''squareLoss'',
        ''accuracy'', ''cost'', ''train'', ''model_vars'', ''X_train'', ''X_test'', ''y_train'',
        ''y_test'']"

definition labels_pm :: "string list \<Rightarrow> string \<Rightarrow> int list \<Rightarrow> py_error + real list" where
  "labels_pm globals ones_module y =
     (if ''npl'' \<notin> set globals then Inl (NameError ''npl'')
      else if ones_module \<notin> set globals then Inl (NameError ones_module)
      else Inr (map (\<lambda>(a, b). a - b)
                  (zip (map (\<lambda>v. real_of_int (v * 2)) y) (replicate (length y) 1))))"

definition Y_train :: "string list \<Rightarrow> int list \<Rightarrow> py_error + real list" where
  "Y_train globals y_train = labels_pm globals ''np'' y_train"

definition Y_test :: "string list \<Rightarrow> int list \<Rightarrow> py_error + real list" where
  "Y_test globals y_test = labels_pm globals ''npl'' y_test"

text \<open>
  What the kernel holds under the name \<open>Y_train\<close> after the data cell has run: the
  assignment binds the name only when its right-hand side has returned.
\<close>

definition kernel_Y_train :: "string list \<Rightarrow> int list \<Rightarrow> real list option" where
  "kernel_Y_train globals y_train =
     (case Y_train globals y_train of Inl e \<Rightarrow> None | Inr Y \<Rightarrow> Some Y)"

text \<open>
  For closed examples: four passengers, a split that keeps the last row for testing, and
  a file system without the CSV file.
\<close>

definition four_passengers :: "passenger list" where
  "four_passengers =
     [\<lparr>Survived = 1, Pclass = 1, Sex = ''female'', Age = Some 4, Embarked = Some ''S''\<rparr>,
      \<lparr>Survived = 0, Pclass = 3, Sex = ''male'', Age = None, Embarked = Some ''C''\<rparr>,
      \<lparr>Survived = 1, Pclass = 2, Sex = ''female'', Age = Some 30, Embarked = None\<rparr>,
      \<lparr>Survived = 0, Pclass = 2, Sex = ''male'', Age = Some 8, Embarked = Some ''S''\<rparr>]"

definition last_row_split :: splitter where
  "last_row_split n y =
     (if n < 2 then Inl ValueError else Inr ([0..<n - 1], [n - 1]))"


section \<open>Loop invariants and reachable states\<close>

text \<open>
  What holds after \<open>i\<close> iterations of each optimisation loop: the parameters keep their
  shape, the device is the one created at the top of the notebook, the optimiser's state
  satisfies \<open>Q i\<close> (for a counted optimiser: it has been called \<open>i\<close> times), and the
  printed lines are numbered as the loop numbers them (every fifth step in the Ising
  notebook, every iteration in the classifier). \<open>ising_reaches\<close> and \<open>vqc_reaches\<close> say
  that the loop arrives at its iteration \<open>k\<close> in state \<open>s\<close>, all earlier iterations having
  returned.
\<close>

definition ising_inv :: "(nat \<Rightarrow> 'o \<Rightarrow> bool) \<Rightarrow> nat \<Rightarrow> 'o ising_state \<Rightarrow> bool" where
  "ising_inv Q i s =
     (length (g_p1 s) = 3 \<and> length (g_p2 s) = 3 \<and> g_dev s = ising_dev \<and> Q i (g_opt s)
      \<and> map fst (g_printed s) = filter (\<lambda>j. j mod 5 = 0) [1..<Suc i]
      \<and> g_x s = 0 # map (\<lambda>j. j - 1) (filter (\<lambda>j. j mod 5 = 0) [1..<Suc i]))"

definition vqc_inv :: "(nat \<Rightarrow> 'o \<Rightarrow> bool) \<Rightarrow> nat \<Rightarrow> ('o, 'g) vqc_state \<Rightarrow> bool" where
  "vqc_inv Q i s =
     (has_shape3 n_layers n_qubits 3 (v_weights s) \<and> v_dev s = vqc_dev \<and> Q i (v_opt s)
      \<and> map fst (v_printed s) = [1..<Suc i])"



section \<open>Helper lemmas: errors, indexing and circuits\<close>

lemma bind_err_Inr [simp]: "bind_err (Inr v) f = f v"
  by (simp add: bind_err_def)

lemma bind_err_Inl [simp]: "bind_err (Inl e) f = Inl e"
  by (simp add: bind_err_def)

lemma getitem_below:
  "n \<le> length xs \<Longrightarrow> i < n \<Longrightarrow> getitem xs i = Inr (xs ! i)"
  by (simp add: getitem_def)

lemma upt_3: "[0..<3] = [0, 1, 2]"
  by (simp add: upt_rec)

lemma circuit_func_shape:
  assumes "3 \<le> length p1" and "3 \<le> length p2"
  shows "circuit_func p1 p2
         = Inr ([Rot (p1 ! 0) (p1 ! 1) (p1 ! 2) 1, Rot (p2 ! 0) (p2 ! 1) (p2 ! 2) 2],
                [Expval_PauliZ 0, Expval_PauliZ 1, Expval_PauliZ 2])"
proof -
  have "getitem p1 0 = Inr (p1 ! 0)" "getitem p1 1 = Inr (p1 ! 1)" "getitem p1 2 = Inr (p1 ! 2)"
    using assms(1) by (simp_all add: getitem_below [of 3])
  moreover
  have "getitem p2 0 = Inr (p2 ! 0)" "getitem p2 1 = Inr (p2 ! 1)" "getitem p2 2 = Inr (p2 ! 2)"
    using assms(2) by (simp_all add: getitem_below [of 3])
  ultimately show ?thesis
    by (simp add: circuit_func_def upt_3)
qed

lemma for_loop_append:
  "for_loop body (xs @ ys) s = bind_err (for_loop body xs s) (for_loop body ys)"
  by (induction xs arbitrary: s) (simp_all split: sum.splits)

lemma for_loop_upt_total:
  assumes start: "P 0 s0"
    and step: "\<And>i s. i < n \<Longrightarrow> P i s \<Longrightarrow> \<exists>s'. body i s = Inr s' \<and> P (Suc i) s'"
    and "k \<le> n"
  shows "\<exists>s'. for_loop body [0..<k] s0 = Inr s' \<and> P k s'"
  using \<open>k \<le> n\<close>
proof (induction k)
  case 0
  then show ?case using start by simp
next
  case (Suc k)
  then obtain s1 where s1: "for_loop body [0..<k] s0 = Inr s1" "P k s1"
    by auto
  from Suc.prems have "k < n" by simp
  from step [OF this s1(2)] obtain s2 where "body k s1 = Inr s2" "P (Suc k) s2"
    by blast
  then show ?case
    using s1(1) by (simp add: for_loop_append)
qed

lemma for_loop_invariant:
  assumes "for_loop body xs s = Inr s'" and "I s"
    and "\<And>i t t'. I t \<Longrightarrow> body i t = Inr t' \<Longrightarrow> I t'"
  shows "I s'"
  using assms(1,2)
proof (induction xs arbitrary: s)
  case Nil
  then show ?case by simp
next
  case (Cons i xs)
  from Cons.prems(1) obtain t where t: "body i s = Inr t" "for_loop body xs t = Inr s'"
    by (auto split: sum.splits)
  from assms(3) [OF Cons.prems(2) t(1)] have "I t" .
  from Cons.IH [OF t(2) this] show ?case .
qed

lemma for_loop_raises:
  assumes "for_loop body xs s = Inr s'" and "body i s' = Inl e"
  shows "for_loop body (xs @ i # ys) s = Inl e"
  using assms by (simp add: for_loop_append)

lemma multiples_of_five: "filter (\<lambda>j. j mod 5 = 0) [1..<Suc 100] = map (\<lambda>k. 5 * (k + 1)) [0..<20]"
  by code_simp

lemma getitem2_below:
  "m \<le> length W \<Longrightarrow> i < m \<Longrightarrow> n \<le> length (W ! i) \<Longrightarrow> j < n
   \<Longrightarrow> getitem2 W i j = Inr (W ! i ! j)"
  by (simp add: getitem2_def getitem_def)

lemma upt_4: "[0..<4] = [0, 1, 2, 3]"
  by (simp add: upt_rec)

lemma layer_row:
  assumes "layer_shape W" and "i < n_qubits"
  shows "bind_err (getitem2 W i 0) (\<lambda>a. bind_err (getitem2 W i 1) (\<lambda>b.
           bind_err (getitem2 W i 2) (\<lambda>c. Inr (t @ [Rot a b c i]))))
         = Inr (t @ [Rot (W ! i ! 0) (W ! i ! 1) (W ! i ! 2) i])"
proof -
  have r: "n_qubits \<le> length W" and c: "3 \<le> length (W ! i)"
    using assms by (simp_all add: layer_shape_def)
  have "getitem2 W i 0 = Inr (W ! i ! 0)" "getitem2 W i 1 = Inr (W ! i ! 1)"
    "getitem2 W i 2 = Inr (W ! i ! 2)"
    using getitem2_below [OF r assms(2) c] by simp_all
  then show ?thesis by simp
qed

lemma layer_rot_loop:
  assumes "layer_shape W" and "\<forall>i\<in>set idx. i < n_qubits"
  shows "for_loop (\<lambda>i t.
            bind_err (getitem2 W i 0) (\<lambda>a. bind_err (getitem2 W i 1) (\<lambda>b.
            bind_err (getitem2 W i 2) (\<lambda>c. Inr (t @ [Rot a b c i])))))
          idx tape
        = Inr (tape @ map (\<lambda>i. Rot (W ! i ! 0) (W ! i ! 1) (W ! i ! 2) i) idx)"
  using assms(2)
  by (induction idx arbitrary: tape) (simp_all add: layer_row [OF assms(1)] del: One_nat_def)

lemma layer_cnot_loop:
  "for_loop (\<lambda>i t. Inr (t @ [CNOT i (i + 1)])) idx tape
   = Inr (tape @ map (\<lambda>i. CNOT i (i + 1)) idx)"
  by (induction idx arbitrary: tape) simp_all

lemma layer_fixed:
  assumes "layer_shape W"
  shows "layer W tape = Inr (tape @ layer_ops W)"
proof -
  have "\<forall>i\<in>set [0..<n_qubits]. i < n_qubits"
    by simp
  from layer_rot_loop [OF assms this] show ?thesis
    by (simp add: layer_def layer_cnot_loop layer_ops_def n_qubits_def upt_4 upt_3
             del: One_nat_def)
qed

lemma for_loop_layers:
  assumes "\<forall>W\<in>set weights. layer_shape W"
  shows "for_loop layer weights tape = Inr (tape @ concat (map layer_ops weights))"
  using assms
  by (induction weights arbitrary: tape) (simp_all add: layer_fixed)

lemma has_shape3_layer_shape:
  assumes "has_shape3 n_layers n_qubits 3 w"
  shows "\<forall>W\<in>set w. layer_shape W"
  using assms by (auto simp add: has_shape3_def layer_shape_def)

lemma map_err_total:
  assumes "\<forall>x\<in>set xs. \<exists>y. f x = Inr y"
  shows "\<exists>ys. map_err f xs = Inr ys \<and> length ys = length xs"
  using assms
proof (induction xs)
  case Nil
  then show ?case by simp
next
  case (Cons x xs)
  then obtain y ys where "f x = Inr y" "map_err f xs = Inr ys" "length ys = length xs"
    by auto
  then show ?case by simp
qed

lemma map_err_getitem_total:
  assumes "\<forall>i\<in>set idx. i < length xs"
  shows "\<exists>ys. map_err (getitem xs) idx = Inr ys \<and> length ys = length idx"
  by (rule map_err_total) (use assms in \<open>simp add: getitem_def\<close>)

lemma squareLoss_returns: "Y \<noteq> [] \<Longrightarrow> \<exists>c. squareLoss Y predictions = Inr c"
  by (simp add: squareLoss_def)

lemma accuracy_returns: "Y \<noteq> [] \<Longrightarrow> \<exists>a. accuracy Y predictions = Inr a"
  by (simp add: accuracy_def)

lemma bind_err_eq_Inr:
  "bind_err m f = Inr r \<longleftrightarrow> (\<exists>v. m = Inr v \<and> f v = Inr r)"
  by (cases m) simp_all


lemma bit_vector_iff: "bit_vector x \<longleftrightarrow> length x = n_qubits \<and> list_all (\<lambda>b. b = 0 \<or> b = 1) x"
  by (simp add: bit_vector_def n_qubits_def list_all_iff)

lemma dataEmbedding_bits:
  "bit_vector x \<Longrightarrow> dataEmbedding x tape = Inr (tape @ [BasisEmbedding x [0, 1, 2, 3]])"
  by (simp add: dataEmbedding_def bit_vector_iff) (simp add: n_qubits_def upt_4)

lemma dataEmbedding_raises: "\<not> bit_vector x \<Longrightarrow> dataEmbedding x tape = Inl ValueError"
  by (auto simp add: dataEmbedding_def bit_vector_iff)

lemma circuitBuild_func_fixed:
  assumes "\<forall>W\<in>set weights. layer_shape W" and "bit_vector x"
  shows "circuitBuild_func weights x
         = Inr (BasisEmbedding x [0, 1, 2, 3] # concat (map layer_ops weights), Expval_PauliZ 0)"
  using assms
  by (simp add: circuitBuild_func_def dataEmbedding_bits for_loop_layers)

lemma ising_tape_supported:
  "m \<in> set [Expval_PauliZ 0, Expval_PauliZ 1, Expval_PauliZ 2]
   \<Longrightarrow> tape_supported ising_dev [Rot a0 a1 a2 1, Rot b0 b1 b2 2] m"
  by (auto simp add: ising_dev_def qml_device_def)

lemma layer_ops_supported: "list_all (op_supported vqc_dev) (layer_ops W)"
  by (simp add: layer_ops_def vqc_dev_def qml_device_def n_qubits_def)

lemma vqc_tape_supported:
  assumes "bit_vector x"
  shows "tape_supported vqc_dev
           (BasisEmbedding x [0, 1, 2, 3] # concat (map layer_ops weights)) (Expval_PauliZ 0)"
proof -
  have "list_all (op_supported vqc_dev) (concat (map layer_ops weights))"
    by (induction weights) (simp_all add: layer_ops_supported)
  moreover have "op_supported vqc_dev (BasisEmbedding x [0, 1, 2, 3])"
    using assms by (simp add: bit_vector_def vqc_dev_def qml_device_def n_qubits_def list_all_iff)
  ultimately show ?thesis
    by (simp add: vqc_dev_def qml_device_def n_qubits_def)
qed

lemma cost_returns:
  assumes "length p1 = 3" and "length p2 = 3"
    and exec: "\<forall>ops m. tape_supported ising_dev ops m \<longrightarrow> (\<exists>v. execute ising_dev ops m = Inr v)"
  shows "\<exists>c. cost execute ising_dev p1 p2 = Inr c"
proof -
  let ?ops = "[Rot (p1 ! 0) (p1 ! 1) (p1 ! 2) 1, Rot (p2 ! 0) (p2 ! 1) (p2 ! 2) 2]"
  have len: "3 \<le> length p1" "3 \<le> length p2"
    using assms(1,2) by simp_all
  obtain v0 where v0: "execute ising_dev ?ops (Expval_PauliZ 0) = Inr v0"
    using exec ising_tape_supported [of "Expval_PauliZ 0"] by fastforce
  obtain v1 where v1: "execute ising_dev ?ops (Expval_PauliZ 1) = Inr v1"
    using exec ising_tape_supported [of "Expval_PauliZ 1"] by fastforce
  obtain v2 where v2: "execute ising_dev ?ops (Expval_PauliZ 2) = Inr v2"
    using exec ising_tape_supported [of "Expval_PauliZ 2"] by fastforce
  have "circuit execute ising_dev p1 p2 = Inr [v0, v1, v2]"
    using v0 v1 v2 by (simp add: circuit_def circuit_func_shape [OF len])
  then show ?thesis
    by (simp add: cost_def getitem_def)
qed

lemma ising_iteration_step:
  assumes inv: "ising_inv Q i s"
    and exec: "\<forall>ops m. tape_supported ising_dev ops m \<longrightarrow> (\<exists>v. execute ising_dev ops m = Inr v)"
    and sgd: "\<forall>i st loss q1 q2.
                Q i st \<and> length q1 = 3 \<and> length q2 = 3
                \<and> (\<forall>r1 r2. length r1 = 3 \<and> length r2 = 3 \<longrightarrow> (\<exists>c. loss r1 r2 = Inr c))
                \<longrightarrow> (\<exists>st' r1 r2. sgd_step st loss q1 q2 = Inr (st', r1, r2)
                                 \<and> length r1 = 3 \<and> length r2 = 3 \<and> Q (Suc i) st')"
  shows "\<exists>s'. ising_iteration execute sgd_step i s = Inr s' \<and> ising_inv Q (Suc i) s'"
proof -
  from inv have len: "length (g_p1 s) = 3" "length (g_p2 s) = 3" and dev: "g_dev s = ising_dev"
    and Q: "Q i (g_opt s)"
    by (simp_all add: ising_inv_def)
  have loss: "\<forall>r1 r2. length r1 = 3 \<and> length r2 = 3
                \<longrightarrow> (\<exists>c. cost execute ising_dev r1 r2 = Inr c)"
    using cost_returns [where execute = execute, OF _ _ exec] by blast
  from sgd Q len loss obtain st' r1 r2 where
    st: "sgd_step (g_opt s) (cost execute ising_dev) (g_p1 s) (g_p2 s) = Inr (st', r1, r2)"
    and r: "length r1 = 3" "length r2 = 3" and Q': "Q (Suc i) st'"
    by blast
  from cost_returns [where execute = execute, OF r exec] obtain c
    where c: "cost execute ising_dev r1 r2 = Inr c"
    by blast
  show ?thesis
    using inv st r c dev Q'
    by (simp add: ising_iteration_def ising_inv_def Let_def)
qed

lemma ising_training_runs:
  assumes "length p1 = 3" and "length p2 = 3"
    and exec: "\<forall>ops m. tape_supported ising_dev ops m \<longrightarrow> (\<exists>v. execute ising_dev ops m = Inr v)"
    and sgd: "\<forall>i st loss q1 q2.
                Q i st \<and> length q1 = 3 \<and> length q2 = 3
                \<and> (\<forall>r1 r2. length r1 = 3 \<and> length r2 = 3 \<longrightarrow> (\<exists>c. loss r1 r2 = Inr c))
                \<longrightarrow> (\<exists>st' r1 r2. sgd_step st loss q1 q2 = Inr (st', r1, r2)
                                 \<and> length r1 = 3 \<and> length r2 = 3 \<and> Q (Suc i) st')"
    and "Q 0 opt0"
  shows "\<exists>s. ising_training execute sgd_step (opt0 :: 'o) p1 p2 = Inr s \<and> ising_inv Q 100 s"
proof -
  from cost_returns [where execute = execute, OF assms(1,2) exec]
  obtain c0 where c0: "cost execute ising_dev p1 p2 = Inr c0"
    by blast
  let ?s0 = "\<lparr>g_dev = ising_dev, g_p1 = p1, g_p2 = p2, g_opt = opt0, g_x = [0],
              g_cost_pt = [c0], g_printed = []\<rparr>"
  have start: "ising_start execute opt0 p1 p2 = Inr ?s0"
    using c0 by (simp add: ising_start_def)
  have inv0: "ising_inv Q 0 ?s0"
    using assms(1,2) \<open>Q 0 opt0\<close> by (simp add: ising_inv_def)
  have "\<exists>s'. for_loop (ising_iteration execute sgd_step) [0..<100] ?s0 = Inr s'
             \<and> ising_inv Q 100 s'"
  proof (rule for_loop_upt_total [where n = 100 and P = "ising_inv Q", OF inv0])
    fix i and s :: "'o ising_state"
    assume "ising_inv Q i s"
    then show "\<exists>s'. ising_iteration execute sgd_step i s = Inr s' \<and> ising_inv Q (Suc i) s'"
      using exec sgd by (rule ising_iteration_step)
  qed simp
  then show ?thesis
    by (simp add: ising_training_def start)
qed

lemma counted_sgd_counts:
  fixes sgd_step :: "'o sgd"
  assumes sgd: "\<forall>st loss q1 q2.
                length q1 = 3 \<and> length q2 = 3
                \<and> (\<forall>r1 r2. length r1 = 3 \<and> length r2 = 3 \<longrightarrow> (\<exists>c. loss r1 r2 = Inr c))
                \<longrightarrow> (\<exists>st' r1 r2. sgd_step st loss q1 q2 = Inr (st', r1, r2)
                                 \<and> length r1 = 3 \<and> length r2 = 3)"
  shows "\<forall>i st loss q1 q2.
           fst st = i \<and> length q1 = 3 \<and> length q2 = 3
           \<and> (\<forall>r1 r2. length r1 = 3 \<and> length r2 = 3 \<longrightarrow> (\<exists>c. loss r1 r2 = Inr c))
           \<longrightarrow> (\<exists>st' r1 r2. counted_sgd sgd_step st loss q1 q2 = Inr (st', r1, r2)
                            \<and> length r1 = 3 \<and> length r2 = 3 \<and> fst st' = Suc i)"
proof (intro allI impI)
  fix i and st :: "nat \<times> 'o" and loss :: "real list \<Rightarrow> real list \<Rightarrow> py_error + real"
    and q1 q2 :: "real list"
  assume h: "fst st = i \<and> length q1 = 3 \<and> length q2 = 3
           \<and> (\<forall>r1 r2. length r1 = 3 \<and> length r2 = 3 \<longrightarrow> (\<exists>c. loss r1 r2 = Inr c))"
  with sgd obtain st' r1 r2 where "sgd_step (snd st) loss q1 q2 = Inr (st', r1, r2)"
    "length r1 = 3" "length r2 = 3"
    by blast
  with h show "\<exists>st' r1 r2. counted_sgd sgd_step st loss q1 q2 = Inr (st', r1, r2)
                            \<and> length r1 = 3 \<and> length r2 = 3 \<and> fst st' = Suc i"
    by (simp add: counted_sgd_def)
qed

lemma ising_loop_calls_optimiser_100_times:
  assumes "length p1 = 3" and "length p2 = 3"
    and exec: "\<forall>ops m. tape_supported ising_dev ops m \<longrightarrow> (\<exists>v. execute ising_dev ops m = Inr v)"
    and sgd: "\<forall>st loss q1 q2.
                length q1 = 3 \<and> length q2 = 3
                \<and> (\<forall>r1 r2. length r1 = 3 \<and> length r2 = 3 \<longrightarrow> (\<exists>c. loss r1 r2 = Inr c))
                \<longrightarrow> (\<exists>st' r1 r2. sgd_step st loss q1 q2 = Inr (st', r1, r2)
                                 \<and> length r1 = 3 \<and> length r2 = 3)"
  shows "\<exists>s. ising_training execute (counted_sgd sgd_step) (0, opt0 :: 'o) p1 p2 = Inr s
            \<and> fst (g_opt s) = 100
            \<and> map fst (g_printed s) = map (\<lambda>k. 5 * (k + 1)) [0..<20]"
proof -
  have "\<exists>s. ising_training execute (counted_sgd sgd_step) (0, opt0) p1 p2 = Inr s
            \<and> ising_inv (\<lambda>i st. fst st = i) 100 s"
    by (rule ising_training_runs [where Q = "\<lambda>i st. fst st = i" and execute = execute
          and sgd_step = "counted_sgd sgd_step",
          OF assms(1,2) exec counted_sgd_counts [OF sgd]]) simp
  then obtain s where run: "ising_training execute (counted_sgd sgd_step) (0, opt0) p1 p2 = Inr s"
    and inv: "ising_inv (\<lambda>i st. fst st = i) 100 s"
    by blast
  from inv have "fst (g_opt s) = 100"
    and "map fst (g_printed s) = filter (\<lambda>j. j mod 5 = 0) [1..<Suc 100]"
    unfolding ising_inv_def by blast+
  with run show ?thesis
    by (simp only: multiples_of_five) blast
qed

section \<open>Helper lemmas: the classifier's loop\<close>

lemma map_err_getitem_subset:
  assumes "map_err (getitem xs) idx = Inr ys"
  shows "set ys \<subseteq> set xs"
  using assms
proof (induction idx arbitrary: ys)
  case Nil
  then show ?case by simp
next
  case (Cons i idx)
  from Cons.prems obtain y rest where "getitem xs i = Inr y" "map_err (getitem xs) idx = Inr rest"
    "ys = y # rest"
    by (auto split: sum.splits)
  moreover from this have "set rest \<subseteq> set xs"
    by (intro Cons.IH)
  ultimately show ?case
    by (auto simp add: getitem_def split: if_splits)
qed

lemma variational_classifier_returns:
  assumes "\<forall>W\<in>set w. layer_shape W" and "bit_vector x"
    and exec: "\<forall>ops m. tape_supported vqc_dev ops m \<longrightarrow> (\<exists>v. execute vqc_dev ops m = Inr v)"
  shows "\<exists>v. variational_classifier execute vqc_dev w b x = Inr v"
proof -
  let ?ops = "BasisEmbedding x [0, 1, 2, 3] # concat (map layer_ops w)"
  obtain v where "execute vqc_dev ?ops (Expval_PauliZ 0) = Inr v"
    using exec vqc_tape_supported [OF assms(2)] by blast
  then show ?thesis
    by (simp add: variational_classifier_def circuitBuild_def
        circuitBuild_func_fixed [OF assms(1,2)])
qed

lemma vqc_cost_returns:
  assumes "\<forall>W\<in>set w. layer_shape W" and "\<forall>x\<in>set X. bit_vector x"
    and exec: "\<forall>ops m. tape_supported vqc_dev ops m \<longrightarrow> (\<exists>v. execute vqc_dev ops m = Inr v)"
    and "Y \<noteq> []"
  shows "\<exists>c. vqc_cost execute vqc_dev w b X Y = Inr c"
proof -
  have "\<forall>x\<in>set X. \<exists>v. variational_classifier execute vqc_dev w b x = Inr v"
    using variational_classifier_returns [where execute = execute, OF assms(1) _ exec] assms(2)
    by blast
  from map_err_total [OF this] obtain ps where
    "map_err (variational_classifier execute vqc_dev w b) X = Inr ps"
    by blast
  then show ?thesis
    using squareLoss_returns [OF assms(4)] by (simp add: vqc_cost_def)
qed

lemma batch_size_positive: "n_it \<le> length X \<Longrightarrow> 0 < batch_size X"
  by (simp add: batch_size_def n_it_def div_greater_zero_iff)

lemma name_value_Some [simp]: "name_value name (Some v) = Inr v"
  by (simp add: name_value_def)

lemma name_value_None [simp]: "name_value name None = Inl (NameError name)"
  by (simp add: name_value_def)

lemma vqc_iteration_step:
  assumes inv: "vqc_inv Q i s"
    and X: "n_it \<le> length X" "\<forall>x\<in>set X. bit_vector x"
    and Y: "length Ys = length X"
    and exec: "\<forall>ops m. tape_supported vqc_dev ops m \<longrightarrow> (\<exists>v. execute vqc_dev ops m = Inr v)"
    and adam: "\<forall>i st f w b.
                 Q i st \<and> has_shape3 n_layers n_qubits 3 w
                 \<and> (\<forall>w' b'. has_shape3 n_layers n_qubits 3 w' \<longrightarrow> (\<exists>c. f w' b' = Inr c))
                 \<longrightarrow> (\<exists>st' w' b'. adam_step st f w b = Inr (st', w', b')
                                  \<and> has_shape3 n_layers n_qubits 3 w' \<and> Q (Suc i) st')"
    and rand: "\<forall>g. \<exists>idx g'. randint g 0 (length X) (batch_size X) = Inr (idx, g')
                 \<and> length idx = batch_size X \<and> (\<forall>i\<in>set idx. i < length X)"
  shows "\<exists>s'. vqc_iteration execute adam_step randint X (Some Ys) i s = Inr s'
              \<and> vqc_inv Q (Suc i) s'"
proof -
  from inv have shape: "has_shape3 n_layers n_qubits 3 (v_weights s)" and dev: "v_dev s = vqc_dev"
    and Q: "Q i (v_opt s)"
    by (simp_all add: vqc_inv_def)
  from rand obtain idx g' where
    idx: "randint (v_rng s) 0 (length X) (batch_size X) = Inr (idx, g')"
    and size: "length idx = batch_size X"
    and range: "\<forall>i\<in>set idx. i < length X"
    by blast
  from map_err_getitem_total [OF range] obtain Xb where Xb: "map_err (getitem X) idx = Inr Xb"
    by blast
  from range Y have "\<forall>i\<in>set idx. i < length Ys"
    by simp
  from map_err_getitem_total [OF this] obtain Yb where Yb: "map_err (getitem Ys) idx = Inr Yb"
    and lenYb: "length Yb = length idx"
    by blast
  from size lenYb batch_size_positive [OF X(1)] have Yb_ne: "Yb \<noteq> []"
    by auto
  from map_err_getitem_subset [OF Xb] X(2) have Xb_bits: "\<forall>x\<in>set Xb. bit_vector x"
    by blast
  have objective: "\<forall>w' b'. has_shape3 n_layers n_qubits 3 w'
                     \<longrightarrow> (\<exists>c. vqc_cost execute vqc_dev w' b' Xb Yb = Inr c)"
    using vqc_cost_returns [where execute = execute, OF has_shape3_layer_shape Xb_bits exec Yb_ne]
    by blast
  from adam [rule_format, where i = i and st = "v_opt s"
      and f = "\<lambda>w b. vqc_cost execute vqc_dev w b Xb Yb"
      and w = "v_weights s" and b = "v_bias s"] Q shape objective
  obtain st' w' b' where
    st: "adam_step (v_opt s) (\<lambda>w b. vqc_cost execute vqc_dev w b Xb Yb) (v_weights s) (v_bias s)
         = Inr (st', w', b')"
    and shape': "has_shape3 n_layers n_qubits 3 w'" and Q': "Q (Suc i) st'"
    by blast
  note ok = has_shape3_layer_shape [OF shape']
  have "\<forall>x\<in>set X. \<exists>y. bind_err (variational_classifier execute vqc_dev w' b' x)
                            (\<lambda>v. Inr (sgn v)) = Inr y"
  proof
    fix x
    assume "x \<in> set X"
    with X(2) have "bit_vector x" by blast
    from variational_classifier_returns [where execute = execute, OF ok this exec]
    obtain v where "variational_classifier execute vqc_dev w' b' x = Inr v"
      by blast
    then show "\<exists>y. bind_err (variational_classifier execute vqc_dev w' b' x)
                     (\<lambda>v. Inr (sgn v)) = Inr y"
      by simp
  qed
  from map_err_total [OF this] obtain ps where
    ps: "map_err (\<lambda>x. bind_err (variational_classifier execute vqc_dev w' b' x)
                        (\<lambda>v. Inr (sgn v))) X = Inr ps"
    by blast
  from X(1) Y have Ys_ne: "Ys \<noteq> []"
    by (auto simp add: n_it_def)
  from accuracy_returns [OF Ys_ne] obtain acc where acc: "accuracy Ys ps = Inr acc"
    by blast
  from vqc_cost_returns [where execute = execute, OF ok X(2) exec Ys_ne]
  obtain c where c: "vqc_cost execute vqc_dev w' b' X Ys = Inr c"
    by blast
  show ?thesis
    using inv idx Xb Yb st shape' ps acc c dev Q'
    by (simp add: vqc_iteration_def vqc_inv_def)
qed

lemma vqc_loop_runs:
  assumes shape: "has_shape3 n_layers n_qubits 3 weights0"
    and X: "n_it \<le> length X" "\<forall>x\<in>set X. bit_vector x"
    and Y: "length Ys = length X"
    and exec: "\<forall>ops m. tape_supported vqc_dev ops m \<longrightarrow> (\<exists>v. execute vqc_dev ops m = Inr v)"
    and adam: "\<forall>i st f w b.
                 Q i st \<and> has_shape3 n_layers n_qubits 3 w
                 \<and> (\<forall>w' b'. has_shape3 n_layers n_qubits 3 w' \<longrightarrow> (\<exists>c. f w' b' = Inr c))
                 \<longrightarrow> (\<exists>st' w' b'. adam_step st f w b = Inr (st', w', b')
                                  \<and> has_shape3 n_layers n_qubits 3 w' \<and> Q (Suc i) st')"
    and rand: "\<forall>g. \<exists>idx g'. randint g 0 (length X) (batch_size X) = Inr (idx, g')
                 \<and> length idx = batch_size X \<and> (\<forall>i\<in>set idx. i < length X)"
    and "Q 0 opt0"
    and "k \<le> n_it"
  shows "\<exists>s. for_loop (vqc_iteration execute adam_step randint X (Some Ys)) [0..<k]
               (vqc_start (opt0 :: 'o) (rng0 :: 'g) weights0 bias0) = Inr s
             \<and> vqc_inv Q k s"
proof (rule for_loop_upt_total [where n = n_it and P = "vqc_inv Q"])
  show "vqc_inv Q 0 (vqc_start opt0 rng0 weights0 bias0)"
    using shape \<open>Q 0 opt0\<close> by (simp add: vqc_inv_def vqc_start_def)
next
  fix i and s :: "('o, 'g) vqc_state"
  assume "vqc_inv Q i s"
  then show "\<exists>s'. vqc_iteration execute adam_step randint X (Some Ys) i s = Inr s'
                  \<and> vqc_inv Q (Suc i) s'"
    using X Y exec adam rand by (rule vqc_iteration_step)
next
  show "k \<le> n_it" by fact
qed

lemma counted_adam_counts:
  fixes adam_step :: "'o adam"
  assumes adam: "\<forall>st f w b.
                 has_shape3 n_layers n_qubits 3 w
                 \<and> (\<forall>w' b'. has_shape3 n_layers n_qubits 3 w' \<longrightarrow> (\<exists>c. f w' b' = Inr c))
                 \<longrightarrow> (\<exists>st' w' b'. adam_step st f w b = Inr (st', w', b')
                                  \<and> has_shape3 n_layers n_qubits 3 w')"
  shows "\<forall>i st f w b.
           fst st = i \<and> has_shape3 n_layers n_qubits 3 w
           \<and> (\<forall>w' b'. has_shape3 n_layers n_qubits 3 w' \<longrightarrow> (\<exists>c. f w' b' = Inr c))
           \<longrightarrow> (\<exists>st' w' b'. counted_adam adam_step st f w b = Inr (st', w', b')
                            \<and> has_shape3 n_layers n_qubits 3 w' \<and> fst st' = Suc i)"
proof (intro allI impI)
  fix i and st :: "nat \<times> 'o" and f :: "real list list list \<Rightarrow> real \<Rightarrow> py_error + real"
    and w :: "real list list list" and b :: real
  assume h: "fst st = i \<and> has_shape3 n_layers n_qubits 3 w
           \<and> (\<forall>w' b'. has_shape3 n_layers n_qubits 3 w' \<longrightarrow> (\<exists>c. f w' b' = Inr c))"
  with adam obtain st' w' b' where "adam_step (snd st) f w b = Inr (st', w', b')"
    "has_shape3 n_layers n_qubits 3 w'"
    by blast
  with h show "\<exists>st' w' b'. counted_adam adam_step st f w b = Inr (st', w', b')
                            \<and> has_shape3 n_layers n_qubits 3 w' \<and> fst st' = Suc i"
    by (simp add: counted_adam_def)
qed

lemma vqc_loop_calls_optimiser_35_times:
  assumes shape: "has_shape3 n_layers n_qubits 3 weights0"
    and X: "n_it \<le> length X" "\<forall>x\<in>set X. bit_vector x"
    and Y: "length Ys = length X"
    and exec: "\<forall>ops m. tape_supported vqc_dev ops m \<longrightarrow> (\<exists>v. execute vqc_dev ops m = Inr v)"
    and adam: "\<forall>st f w b.
                 has_shape3 n_layers n_qubits 3 w
                 \<and> (\<forall>w' b'. has_shape3 n_layers n_qubits 3 w' \<longrightarrow> (\<exists>c. f w' b' = Inr c))
                 \<longrightarrow> (\<exists>st' w' b'. adam_step st f w b = Inr (st', w', b')
                                  \<and> has_shape3 n_layers n_qubits 3 w')"
    and rand: "\<forall>g. \<exists>idx g'. randint g 0 (length X) (batch_size X) = Inr (idx, g')
                 \<and> length idx = batch_size X \<and> (\<forall>i\<in>set idx. i < length X)"
  shows "\<exists>s. vqc_training execute (counted_adam adam_step) randint (0, opt0 :: 'o) (rng0 :: 'g)
               weights0 bias0 X (Some Ys) = Inr s
            \<and> fst (v_opt s) = 35 \<and> n_it = 35
            \<and> map fst (v_printed s) = [1..<36]"
proof -
  have "\<exists>s. for_loop (vqc_iteration execute (counted_adam adam_step) randint X (Some Ys)) [0..<n_it]
               (vqc_start (0, opt0) rng0 weights0 bias0) = Inr s
             \<and> vqc_inv (\<lambda>i st. fst st = i) n_it s"
    by (rule vqc_loop_runs [where Q = "\<lambda>i st. fst st = i" and execute = execute
          and adam_step = "counted_adam adam_step" and randint = randint,
          OF shape X Y exec counted_adam_counts [OF adam] rand]) simp_all
  then obtain s where
    run: "for_loop (vqc_iteration execute (counted_adam adam_step) randint X (Some Ys)) [0..<n_it]
               (vqc_start (0, opt0) rng0 weights0 bias0) = Inr s"
    and inv: "vqc_inv (\<lambda>i st. fst st = i) n_it s"
    by blast
  from inv have "fst (v_opt s) = 35" and "map fst (v_printed s) = [1..<36]"
    by (simp_all add: vqc_inv_def n_it_def)
  with run show ?thesis
    by (intro exI [of _ s]) (simp add: vqc_training_def n_it_def)
qed

lemma vqc_iteration_result:
  assumes "vqc_iteration execute adam_step randint X Y i s = Inr s'"
  shows "\<exists>f st' b'. adam_step (v_opt s) f (v_weights s) (v_bias s) = Inr (st', v_weights s', b')"
    and "v_dev s' = v_dev s"
  using assms
   apply (auto simp add: vqc_iteration_def bind_err_eq_Inr)
  apply (rule exI, rule exI, rule exI, assumption)
  done

lemma ising_iteration_dev:
  assumes "ising_iteration execute sgd_step i s = Inr s'"
  shows "g_dev s' = g_dev s"
  using assms
  by (auto simp add: ising_iteration_def bind_err_eq_Inr Let_def split: if_splits)

lemma ising_start_dev:
  assumes "ising_start execute opt0 p1 p2 = Inr s"
  shows "g_dev s = ising_dev"
  using assms by (auto simp add: ising_start_def bind_err_eq_Inr)

lemma ising_loop_keeps_dev:
  assumes start: "ising_start execute opt0 p1 p2 = Inr s0"
    and run: "for_loop (ising_iteration execute sgd_step) idx s0 = Inr s"
  shows "g_dev s = ising_dev"
proof (rule for_loop_invariant [where I = "\<lambda>t. g_dev t = ising_dev", OF run])
  show "g_dev s0 = ising_dev"
    by (rule ising_start_dev [OF start])
next
  fix i t t'
  assume "g_dev t = ising_dev" and "ising_iteration execute sgd_step i t = Inr t'"
  then show "g_dev t' = ising_dev"
    using ising_iteration_dev [of execute sgd_step i t t'] by simp
qed

lemma vqc_loop_keeps_dev:
  assumes run: "for_loop (vqc_iteration execute adam_step randint X Y) idx
                  (vqc_start opt0 rng0 weights0 bias0) = Inr s"
  shows "v_dev s = vqc_dev"
proof (rule for_loop_invariant [where I = "\<lambda>t. v_dev t = vqc_dev", OF run])
  show "v_dev (vqc_start opt0 rng0 weights0 bias0) = vqc_dev"
    by (simp add: vqc_start_def)
next
  fix i t t'
  assume "v_dev t = vqc_dev" and "vqc_iteration execute adam_step randint X Y i t = Inr t'"
  then show "v_dev t' = vqc_dev"
    using vqc_iteration_result(2) [of execute adam_step randint X Y i t t'] by simp
qed

lemma device_wires: "dev_wires ising_dev = 3" "dev_wires vqc_dev = 4"
  by (simp_all add: ising_dev_def vqc_dev_def qml_device_def n_qubits_def)

lemma weights_init_shape: "has_shape3 n_layers n_qubits 3 (weights_init sample)"
  by (auto simp add: has_shape3_def weights_init_def randn3_def)

lemma layer_shape_zero: "layer_shape [[0, 0, 0], [0, 0, 0], [0, 0, 0], [0, 0, 0]]"
  by (simp add: layer_shape_def n_qubits_def less_Suc_eq eval_nat_numeral)

lemma checking_device_answers:
  "\<forall>ops m. tape_supported dev ops m \<longrightarrow> (\<exists>v. checking_device dev ops m = Inr v)"
  by (simp add: checking_device_def)

lemma plain_sgd_returns:
  "\<forall>i st loss q1 q2.
     True \<and> length q1 = 3 \<and> length q2 = 3
     \<and> (\<forall>r1 r2. length r1 = 3 \<and> length r2 = 3 \<longrightarrow> (\<exists>c. loss r1 r2 = Inr c))
     \<longrightarrow> (\<exists>st' r1 r2. plain_sgd st loss q1 q2 = Inr (st', r1, r2)
                      \<and> length r1 = 3 \<and> length r2 = 3 \<and> True)"
proof (intro allI impI)
  fix i :: nat and st :: unit and loss :: "real list \<Rightarrow> real list \<Rightarrow> py_error + real"
    and q1 q2 :: "real list"
  assume h: "True \<and> length q1 = 3 \<and> length q2 = 3
     \<and> (\<forall>r1 r2. length r1 = 3 \<and> length r2 = 3 \<longrightarrow> (\<exists>c. loss r1 r2 = Inr c))"
  then obtain c where "loss q1 q2 = Inr c"
    by blast
  with h show "\<exists>st' r1 r2. plain_sgd st loss q1 q2 = Inr (st', r1, r2)
                      \<and> length r1 = 3 \<and> length r2 = 3 \<and> True"
    by (simp add: plain_sgd_def)
qed

lemma plain_adam_returns:
  "\<forall>i st f w b.
     True \<and> has_shape3 n_layers n_qubits 3 w
     \<and> (\<forall>w' b'. has_shape3 n_layers n_qubits 3 w' \<longrightarrow> (\<exists>c. f w' b' = Inr c))
     \<longrightarrow> (\<exists>st' w' b'. plain_adam st f w b = Inr (st', w', b')
                      \<and> has_shape3 n_layers n_qubits 3 w' \<and> True)"
proof (intro allI impI)
  fix i :: nat and st :: unit and f :: "real list list list \<Rightarrow> real \<Rightarrow> py_error + real"
    and w :: "real list list list" and b :: real
  assume h: "True \<and> has_shape3 n_layers n_qubits 3 w
     \<and> (\<forall>w' b'. has_shape3 n_layers n_qubits 3 w' \<longrightarrow> (\<exists>c. f w' b' = Inr c))"
  then obtain c where "f w b = Inr c"
    by blast
  with h show "\<exists>st' w' b'. plain_adam st f w b = Inr (st', w', b')
                      \<and> has_shape3 n_layers n_qubits 3 w' \<and> True"
    by (simp add: plain_adam_def)
qed

lemma plain_adam_preserves:
  "\<forall>st f w b st' w' b'.
     plain_adam st f w b = Inr (st', w', b') \<and> has_shape3 2 4 3 w \<longrightarrow> has_shape3 2 4 3 w'"
  by (auto simp add: plain_adam_def bind_err_eq_Inr)

lemma rows35_facts:
  "n_it \<le> length rows35" "\<forall>x\<in>set rows35. bit_vector x" "length labels35 = length rows35"
  by (simp_all add: rows35_def labels35_def n_it_def bit_vector_def)

lemma first_row_randint_rows35:
  "\<forall>g. \<exists>idx g'. first_row_randint g 0 (length rows35) (batch_size rows35) = Inr (idx, g')
      \<and> length idx = batch_size rows35 \<and> (\<forall>i\<in>set idx. i < length rows35)"
  by (simp add: first_row_randint_def rows35_def batch_size_def n_it_def)

lemma plain_training_runs:
  "\<exists>s. for_loop (vqc_iteration checking_device plain_adam first_row_randint rows35 (Some labels35))
          [0..<n_it] (vqc_start () () (weights_init (\<lambda>n. 0)) bias_init) = Inr s"
proof -
  from vqc_loop_runs [where execute = checking_device and adam_step = plain_adam
      and randint = first_row_randint and Q = "\<lambda>i st. True" and X = rows35 and Ys = labels35
      and k = n_it,
      OF weights_init_shape rows35_facts checking_device_answers plain_adam_returns
         first_row_randint_rows35 TrueI order_refl]
  show ?thesis by blast
qed

lemma plain_ising_training_runs:
  "\<exists>s. ising_training checking_device plain_sgd () [0, 0, 0] [0, 0, 0] = Inr s"
proof -
  have a: "length [0, 0, 0 :: real] = 3" by simp
  from ising_training_runs [where execute = checking_device and sgd_step = plain_sgd
      and Q = "\<lambda>i st. True" and ?opt0.0 = "()",
      OF a a checking_device_answers plain_sgd_returns TrueI]
  show ?thesis by blast
qed


section \<open>Helper lemmas: where an exception comes from\<close>


















section \<open>Helper lemmas: the kernel's names and two closed runs\<close>

lemma npl_bound: "''npl'' \<in> set (vqc_globals star)"
  by (simp add: vqc_globals_def)

lemma np_unbound: "''np'' \<in> set (vqc_globals star) \<longleftrightarrow> ''np'' \<in> set star"
  by (simp add: vqc_globals_def)

lemma kernel_Y_train_unbound:
  "''np'' \<notin> set star \<Longrightarrow> kernel_Y_train (vqc_globals star) y_train = None"
  by (simp add: kernel_Y_train_def Y_train_def labels_pm_def npl_bound np_unbound)

lemma n_it_positive: "[0..<n_it] = 0 # [1..<n_it]"
  by (simp add: n_it_def upt_rec)

lemma ising_loop_counted_example:
  "\<exists>s. ising_training checking_device (counted_sgd plain_sgd) (0, ()) [0, 0, 0] [0, 0, 0] = Inr s
      \<and> fst (g_opt s) = 100
      \<and> map fst (g_printed s) = map (\<lambda>k. 5 * (k + 1)) [0..<20]"
proof -
  have a: "length [0, 0, 0 :: real] = 3" by simp
  have sgd: "\<forall>st loss q1 q2.
                length q1 = 3 \<and> length q2 = 3
                \<and> (\<forall>r1 r2. length r1 = 3 \<and> length r2 = 3 \<longrightarrow> (\<exists>c. loss r1 r2 = Inr c))
                \<longrightarrow> (\<exists>st' r1 r2. plain_sgd st loss q1 q2 = Inr (st', r1, r2)
                                 \<and> length r1 = 3 \<and> length r2 = 3)"
    using plain_sgd_returns by simp
  show ?thesis
    by (rule ising_loop_calls_optimiser_100_times [where execute = checking_device
          and sgd_step = plain_sgd, OF a a checking_device_answers sgd])
qed

lemma vqc_loop_counted_example:
  "\<exists>s. vqc_training checking_device (counted_adam plain_adam) first_row_randint (0, ()) ()
          (weights_init (\<lambda>n. 0)) bias_init rows35 (Some labels35) = Inr s
      \<and> fst (v_opt s) = 35 \<and> n_it = 35
      \<and> map fst (v_printed s) = [1..<36]"
proof -
  have adam: "\<forall>st f w b.
                 has_shape3 n_layers n_qubits 3 w
                 \<and> (\<forall>w' b'. has_shape3 n_layers n_qubits 3 w' \<longrightarrow> (\<exists>c. f w' b' = Inr c))
                 \<longrightarrow> (\<exists>st' w' b'. plain_adam st f w b = Inr (st', w', b')
                                  \<and> has_shape3 n_layers n_qubits 3 w')"
    using plain_adam_returns by simp
  show ?thesis
    by (rule vqc_loop_calls_optimiser_35_times [where execute = checking_device
          and adam_step = plain_adam and randint = first_row_randint,
          OF weights_init_shape rows35_facts checking_device_answers adam
             first_row_randint_rows35])
qed

section \<open>Helper lemmas: the data\<close>

lemma is_child_bit: "is_child a = 0 \<or> is_child a = 1"
  by (simp add: is_child_def split: option.splits)

lemma is_child_iff: "is_child a = (if \<exists>v. a = Some v \<and> v < 12 then 1 else 0)"
  by (simp add: is_child_def split: option.splits)

lemma length_fillna_median: "length (fillna_median ages) = length ages"
  by (simp add: fillna_median_def Let_def)

lemma get_dummies_column:
  assumes "(name, c) \<in> set (get_dummies cols)"
  shows "\<exists>col vals v. (col, vals) \<in> set cols \<and> name = col @ ''_'' @ v
           \<and> length c = length vals \<and> (\<forall>b\<in>set c. b = 0 \<or> b = 1)"
proof -
  from assms obtain col vals v where in_cols: "(col, vals) \<in> set cols"
    and name: "name = col @ ''_'' @ v"
    and c: "c = map (\<lambda>u. if u = Some v then 1 else 0) vals"
    by (auto simp add: get_dummies_def)
  from c have "length c = length vals" and "\<forall>b\<in>set c. b = 0 \<or> b = 1"
    by auto
  with in_cols name show ?thesis
    by blast
qed

lemma feature_columns_column:
  assumes "(name, c) \<in> set (feature_columns train)"
  shows "length c = length train \<and> (\<forall>b\<in>set c. b = 0 \<or> b = 1)"
proof -
  from assms consider
    (dummy) "(name, c) \<in> set (get_dummies
        [(''Pclass'', map (\<lambda>r. Some (str_int (Pclass r))) train),
         (''Sex'', map (\<lambda>r. Some (Sex r)) train),
         (''Embarked'', map Embarked train)])"
    | (child) "c = map is_child (fillna_median (map Age train))"
    by (auto simp add: feature_columns_def)
  then show ?thesis
  proof cases
    case dummy
    from get_dummies_column [OF this] show ?thesis
      by auto
  next
    case child
    then show ?thesis
      using is_child_bit by (auto simp add: length_fillna_median)
  qed
qed

lemma is_child_not_dummy:
  "map_of (get_dummies
        [(''Pclass'', map (\<lambda>r. Some (str_int (Pclass r))) train),
         (''Sex'', map (\<lambda>r. Some (Sex r)) train),
         (''Embarked'', map Embarked train)]) ''is_child'' = None"
proof -
  have "''is_child'' \<notin> fst ` set (get_dummies
        [(''Pclass'', map (\<lambda>r. Some (str_int (Pclass r))) train),
         (''Sex'', map (\<lambda>r. Some (Sex r)) train),
         (''Embarked'', map Embarked train)])"
  proof
    assume "''is_child'' \<in> fst ` set (get_dummies
        [(''Pclass'', map (\<lambda>r. Some (str_int (Pclass r))) train),
         (''Sex'', map (\<lambda>r. Some (Sex r)) train),
         (''Embarked'', map Embarked train)])"
    then obtain c where "(''is_child'', c) \<in> set (get_dummies
        [(''Pclass'', map (\<lambda>r. Some (str_int (Pclass r))) train),
         (''Sex'', map (\<lambda>r. Some (Sex r)) train),
         (''Embarked'', map Embarked train)])"
      by auto
    from get_dummies_column [OF this] show False
      by auto
  qed
  then show ?thesis
    by (simp add: map_of_eq_None_iff)
qed

lemma is_child_column:
  "map_of (feature_columns train) ''is_child''
   = Some (map is_child (fillna_median (map Age train)))"
  by (simp add: feature_columns_def map_add_def is_child_not_dummy)

lemma select_columns_sound:
  assumes "select_columns cols names = Inr sel"
  shows "length sel = length names \<and> (\<forall>j<length names. map_of cols (names ! j) = Some (sel ! j))"
  using assms
proof (induction names arbitrary: sel)
  case Nil
  then show ?case by (simp add: select_columns_def)
next
  case (Cons n names)
  from Cons.prems obtain c rest where
    c: "map_of cols n = Some c" and rest: "select_columns cols names = Inr rest"
    and sel: "sel = c # rest"
    by (auto simp add: select_columns_def split: option.splits sum.splits)
  from Cons.IH [OF rest] c sel show ?case
    by (auto simp add: nth_Cons')
qed

lemma features_sound:
  assumes "features train = Inr X"
  shows "length X = length train"
    and "\<forall>x\<in>set X. bit_vector x"
    and "\<forall>i<length train. X ! i ! 0
           = (if \<exists>v. fillna_median (map Age train) ! i = Some v \<and> v < 12 then 1 else 0)"
proof -
  from assms obtain sel where sel: "select_columns (feature_columns train) model_vars = Inr sel"
    and X: "X = rows_of (length train) sel"
    by (auto simp add: features_def bind_err_eq_Inr)
  from select_columns_sound [OF sel] have len: "length sel = 4"
    and look: "\<forall>j<4. map_of (feature_columns train) (model_vars ! j) = Some (sel ! j)"
    by (simp_all add: model_vars_def)
  have cols: "length c = length train \<and> (\<forall>b\<in>set c. b = 0 \<or> b = 1)" if "c \<in> set sel" for c
  proof -
    from that obtain j where j: "j < length sel" "c = sel ! j"
      by (auto simp add: in_set_conv_nth)
    with look len have "map_of (feature_columns train) (model_vars ! j) = Some c"
      by simp
    from map_of_SomeD [OF this] show ?thesis
      by (rule feature_columns_column)
  qed
  show "length X = length train"
    by (simp add: X rows_of_def)
  show "\<forall>x\<in>set X. bit_vector x"
  proof
    fix x
    assume "x \<in> set X"
    then obtain i where i: "i < length train" "x = map (\<lambda>c. c ! i) sel"
      by (auto simp add: X rows_of_def)
    have "b = 0 \<or> b = 1" if "b \<in> set x" for b
    proof -
      from that i obtain c where c: "c \<in> set sel" "b = c ! i"
        by auto
      from cols [OF c(1)] i(1) have "c ! i \<in> set c"
        by simp
      with cols [OF c(1)] c(2) show ?thesis
        by blast
    qed
    with i len show "bit_vector x"
      by (simp add: bit_vector_def)
  qed
  show "\<forall>i<length train. X ! i ! 0
           = (if \<exists>v. fillna_median (map Age train) ! i = Some v \<and> v < 12 then 1 else 0)"
  proof (intro allI impI)
    fix i
    assume i: "i < length train"
    from look have "map_of (feature_columns train) (model_vars ! 0) = Some (sel ! 0)"
      by simp
    then have "map_of (feature_columns train) ''is_child'' = Some (sel ! 0)"
      by (simp add: model_vars_def)
    then have "sel ! 0 = map is_child (fillna_median (map Age train))"
      by (simp add: is_child_column)
    moreover have "X ! i ! 0 = sel ! 0 ! i"
      using i len by (simp add: X rows_of_def)
    ultimately show "X ! i ! 0
           = (if \<exists>v. fillna_median (map Age train) ! i = Some v \<and> v < 12 then 1 else 0)"
      using i by (simp add: length_fillna_median is_child_iff)
  qed
qed

lemma str_int_small: "str_int 1 = ''1''" "str_int 2 = ''2''" "str_int 3 = ''3''"
  by (simp_all add: str_int_def str_nat.simps)

lemma four_passengers_columns:
  "feature_columns four_passengers =
     [(''Pclass_1'', [1, 0, 0, 0]), (''Pclass_3'', [0, 1, 0, 0]), (''Pclass_2'', [0, 0, 1, 1]),
      (''Sex_female'', [1, 0, 1, 0]), (''Sex_male'', [0, 1, 0, 1]),
      (''Embarked_C'', [0, 1, 0, 0]), (''Embarked_S'', [1, 0, 0, 1]),
      (''is_child'', [1, 1, 0, 1])]"
  by (simp add: feature_columns_def four_passengers_def get_dummies_def str_int_small
      List.map_filter_simps fillna_median_def median_def is_child_def)

lemma four_passengers_length:
  "length four_passengers = 4" "map Survived four_passengers = [1, 0, 1, 0]"
  by (simp_all add: four_passengers_def)

lemma four_passengers_features:
  "features four_passengers = Inr [[1, 1, 0, 1], [1, 0, 0, 0], [0, 0, 1, 1], [1, 0, 1, 0]]"
  by (simp add: features_def four_passengers_columns select_columns_def model_vars_def
      rows_of_def four_passengers_length upt_rec)

lemma four_passengers_split:
  "train_test_features last_row_split four_passengers
   = Inr ([[1, 1, 0, 1], [1, 0, 0, 0], [0, 0, 1, 1]], [[1, 0, 1, 0]], [1, 0, 1], [0])"
  by (simp add: train_test_features_def four_passengers_features last_row_split_def
      four_passengers_length getitem_def upt_rec)

lemma labels_pm_bound:
  assumes "''npl'' \<in> set globals" and "m \<in> set globals"
  shows "labels_pm globals m y = Inr (map (\<lambda>v. 2 * real_of_int v - 1) y)"
proof -
  have "map (\<lambda>(a, b). a - b) (zip (map (\<lambda>v. real_of_int (v * 2)) y) (replicate (length y) 1))
        = map (\<lambda>v. 2 * real_of_int v - 1) y"
    by (induction y) simp_all
  with assms show ?thesis
    by (simp add: labels_pm_def)
qed

lemma Y_test_labels:
  "Y_test (vqc_globals star) y = Inr (map (\<lambda>v. 2 * real_of_int v - 1) y)"
  by (simp add: Y_test_def labels_pm_bound npl_bound)

lemma label_encoding_round_trip:
  assumes "\<forall>v\<in>set y. v = 0 \<or> v = 1"
  shows "\<exists>Y. Y_test (vqc_globals star) y = Inr Y
           \<and> (\<forall>l\<in>set Y. l = -1 \<or> l = 1)
           \<and> map (\<lambda>l. (l + 1) / 2) Y = map real_of_int y"
    and "2 * real_of_int 0 - 1 = -1" and "2 * real_of_int 1 - 1 = 1"
    and "inj_on (\<lambda>v. 2 * real_of_int v - 1) {0, 1}"
proof -
  have "\<forall>l\<in>set (map (\<lambda>v. 2 * real_of_int v - 1) y). l = -1 \<or> l = 1"
    using assms by auto
  moreover have "map (\<lambda>l. (l + 1) / 2) (map (\<lambda>v. 2 * real_of_int v - 1) y) = map real_of_int y"
    by simp
  ultimately show "\<exists>Y. Y_test (vqc_globals star) y = Inr Y
           \<and> (\<forall>l\<in>set Y. l = -1 \<or> l = 1)
           \<and> map (\<lambda>l. (l + 1) / 2) Y = map real_of_int y"
    by (simp add: Y_test_labels)
  show "2 * real_of_int 0 - 1 = -1" and "2 * real_of_int 1 - 1 = 1"
    by simp_all
  show "inj_on (\<lambda>v. 2 * real_of_int v - 1) {0, 1}"
    by (simp add: inj_on_def)
qed

section \<open>Helper lemmas: the loss and the accuracy\<close>

lemma squareLoss_loop_sum:
  "squareLoss_loop acc zs = acc + sum_list (map (\<lambda>(l, p). (l - p)\<^sup>2) zs)"
  by (induction acc zs rule: squareLoss_loop.induct) simp_all

lemma sum_list_zip_nth:
  assumes "length ls = length ps"
  shows "sum_list (map (\<lambda>(l, p). f l p) (zip ls ps)) = (\<Sum>i<length ls. f (ls ! i) (ps ! i))"
proof -
  have "sum_list (map (\<lambda>(l, p). f l p) (zip ls ps))
        = (\<Sum>i = 0..<length (zip ls ps). (map (\<lambda>(l, p). f l p) (zip ls ps)) ! i)"
    by (simp add: sum_list_sum_nth)
  also have "\<dots> = (\<Sum>i = 0..<length ls. f (ls ! i) (ps ! i))"
    using assms by (intro sum.cong) simp_all
  finally show ?thesis
    by (simp add: lessThan_atLeast0)
qed

lemma accuracy_loop_count:
  "accuracy_loop acc zs = acc + length (filter (\<lambda>(l, p). \<bar>l - p\<bar> < 1 / 100000) zs)"
  by (induction acc zs rule: accuracy_loop.induct) simp_all

lemma length_filter_zip_card:
  assumes "length ls = length ps"
  shows "length (filter (\<lambda>(l, p). P l p) (zip ls ps))
         = card {i. i < length ls \<and> P (ls ! i) (ps ! i)}"
proof -
  have "length (filter (\<lambda>(l, p). P l p) (zip ls ps))
        = card {i. i < length (zip ls ps) \<and> (\<lambda>(l, p). P l p) (zip ls ps ! i)}"
    by (rule length_filter_conv_card)
  also have "{i. i < length (zip ls ps) \<and> (\<lambda>(l, p). P l p) (zip ls ps ! i)}
             = {i. i < length ls \<and> P (ls ! i) (ps ! i)}"
    using assms by auto
  finally show ?thesis .
qed

lemma card_indices_le: "card {i. i < n \<and> Q i} \<le> n"
proof -
  have "card {i. i < n \<and> Q i} \<le> card {..<n}"
    by (rule card_mono) auto
  then show ?thesis by simp
qed

section \<open>The Ising energy at a known spin configuration\<close>

text \<open>
  The angles \<open>(0, \<pi>, 0)\<close> on both rotated wires put the spins into the configuration
  \<open>[1, -1, -1]\<close>.
\<close>

lemma known_configuration_spins:
  "circuit product_device ising_dev [0, pi, 0] [0, pi, 0] = Inr [1, -1, -1]"
  by (simp add: circuit_def circuit_func_def getitem_def upt_3 ising_dev_def qml_device_def)

text \<open>
  Whatever the device returns, \<open>cost\<close> is the stated Hamiltonian with the couplings
  \<open>J = [1, -1]\<close>: these are the factors \<open>1\<close> and \<open>-1\<close> written in the code, the
  opposite of the \<open>J = [-1, 1]\<close> of the notebook's introduction.
\<close>

lemma cost_is_hamiltonian_of_code_couplings:
  assumes "circuit execute dev var1 var2 = Inr [s0, s1, s2]"
  shows "cost execute dev var1 var2 = Inr (stated_hamiltonian [1, -1] [s0, s1, s2])"
  using assms by (simp add: cost_def getitem_def stated_hamiltonian_def upt_rec)

text \<open>
  The notebook's closing remark, "the minimum state is the -2 spin configuration
  corresponding to \<open>[1, 1, -1]\<close>", and the recorded output of the optimisation agree
  with the code: \<open>cost\<close> is \<open>-2\<close> there, where the Hamiltonian with \<open>J = [-1, 1]\<close>
  would be \<open>+2\<close>.
\<close>

lemma ising_minimum_as_reported:
  "circuit product_device ising_dev [0, 0, 0] [0, pi, 0] = Inr [1, 1, -1]
   \<and> cost product_device ising_dev [0, 0, 0] [0, pi, 0] = Inr (-2)
   \<and> stated_hamiltonian [-1, 1] [1, 1, -1] = 2"
  by (simp add: cost_def circuit_def circuit_func_def getitem_def upt_3 ising_dev_def qml_device_def
      stated_hamiltonian_def upt_rec)

text \<open>
  Claim C1 as stated fails: at the configuration \<open>[1, -1, -1]\<close> the cost function
  returns \<open>2\<close>, not the \<open>-2\<close> that the Hamiltonian with \<open>J = [-1, 1]\<close> gives by hand.
\<close>

theorem cost_known_configuration_counterexample:
  "circuit product_device ising_dev [0, pi, 0] [0, pi, 0] = Inr [1, -1, -1]
   \<and> cost product_device ising_dev [0, pi, 0] [0, pi, 0] = Inr 2
   \<and> stated_hamiltonian [-1, 1] [1, -1, -1] = -2
   \<and> cost product_device ising_dev [0, pi, 0] [0, pi, 0]
       \<noteq> Inr (stated_hamiltonian [-1, 1] [1, -1, -1])"
  by (simp add: cost_def known_configuration_spins getitem_def stated_hamiltonian_def upt_rec)

text \<open>
  Claim C1, amended. Evaluating the Ising notebook's cost function at the spin
  configuration \<open>[1, -1, -1]\<close> (the circuit's three Pauli-Z expectation values equal to
  1, -1, -1) returns \<open>2\<close>, which is the energy \<open>H = - (\<Sum>i. J i * s i * s (i + 1))\<close> with
  the couplings \<open>J = [1, -1]\<close> that the code uses.
\<close>

theorem cost_known_configuration:
  assumes "circuit execute dev var1 var2 = Inr [1, -1, -1]"
  shows "cost execute dev var1 var2 = Inr 2
         \<and> cost execute dev var1 var2 = Inr (stated_hamiltonian [1, -1] [1, -1, -1])"
  using cost_is_hamiltonian_of_code_couplings [OF assms]
  by (simp add: stated_hamiltonian_def upt_rec)

theorem cost_known_configuration_witness:
  "circuit product_device ising_dev [0, pi, 0] [0, pi, 0] = Inr [1, -1, -1]
   \<and> cost product_device ising_dev [0, pi, 0] [0, pi, 0] = Inr 2"
  using cost_known_configuration [OF known_configuration_spins] known_configuration_spins
  by simp

section \<open>The circuits are fixed sequences of gate calls\<close>

text \<open>
  Claim C2. For every input of the shapes the notebooks pass (angle vectors with three
  entries, a weight slice with a row of three angles for each of the 4 wires, a feature
  vector of 4 bits) each circuit function applies the same sequence of gate calls: the
  Ising circuit one \<open>Rot\<close> on wire 1 and one on wire 2, returning the Pauli-Z expectations
  of wires 0, 1, 2 in that order; a layer one \<open>Rot\<close> on each of the 4 wires, then \<open>CNOT\<close>s
  on (0,1), (1,2), (2,3), (3,0) in that order; \<open>circuitBuild\<close> the data embedding, then
  one layer per weight slice, returning the Pauli-Z expectation of wire 0. Only the angles
  depend on the input. The functions have no branch of their own: an array too short for
  the constant indices raises IndexError before the gate is applied, and the embedding
  raises ValueError on a feature vector that is not 4 bits.
\<close>

theorem circuits_apply_fixed_gate_sequences:
  "(3 \<le> length p1 \<and> 3 \<le> length p2 \<longrightarrow>
      circuit_func p1 p2
        = Inr ([Rot (p1 ! 0) (p1 ! 1) (p1 ! 2) 1, Rot (p2 ! 0) (p2 ! 1) (p2 ! 2) 2],
               [Expval_PauliZ 0, Expval_PauliZ 1, Expval_PauliZ 2]))
   \<and> (layer_shape W \<longrightarrow>
      layer W tape
        = Inr (tape @ [Rot (W ! 0 ! 0) (W ! 0 ! 1) (W ! 0 ! 2) 0,
                       Rot (W ! 1 ! 0) (W ! 1 ! 1) (W ! 1 ! 2) 1,
                       Rot (W ! 2 ! 0) (W ! 2 ! 1) (W ! 2 ! 2) 2,
                       Rot (W ! 3 ! 0) (W ! 3 ! 1) (W ! 3 ! 2) 3,
                       CNOT 0 1, CNOT 1 2, CNOT 2 3, CNOT 3 0]))
   \<and> ((\<forall>V\<in>set weights. layer_shape V) \<and> bit_vector x \<longrightarrow>
      circuitBuild_func weights x
        = Inr (BasisEmbedding x [0, 1, 2, 3] # concat (map layer_ops weights),
               Expval_PauliZ 0))"
  using circuit_func_shape [of p1 p2] layer_fixed [of W tape] circuitBuild_func_fixed [of weights x]
  by (simp add: layer_ops_def)

theorem circuits_apply_fixed_gate_sequences_witness:
  "circuit_func [1, 2, 3] [4, 5, 6]
     = Inr ([Rot 1 2 3 1, Rot 4 5 6 2], [Expval_PauliZ 0, Expval_PauliZ 1, Expval_PauliZ 2])
   \<and> layer [[1, 2, 3], [4, 5, 6], [7, 8, 9], [10, 11, 12]] []
     = Inr [Rot 1 2 3 0, Rot 4 5 6 1, Rot 7 8 9 2, Rot 10 11 12 3,
            CNOT 0 1, CNOT 1 2, CNOT 2 3, CNOT 3 0]
   \<and> circuitBuild_func [[[1, 2, 3], [4, 5, 6], [7, 8, 9], [10, 11, 12]],
                        [[0, 0, 0], [0, 0, 0], [0, 0, 0], [0, 0, 0]]] [1, 1, 0, 1]
     = Inr ([BasisEmbedding [1, 1, 0, 1] [0, 1, 2, 3],
             Rot 1 2 3 0, Rot 4 5 6 1, Rot 7 8 9 2, Rot 10 11 12 3,
             CNOT 0 1, CNOT 1 2, CNOT 2 3, CNOT 3 0,
             Rot 0 0 0 0, Rot 0 0 0 1, Rot 0 0 0 2, Rot 0 0 0 3,
             CNOT 0 1, CNOT 1 2, CNOT 2 3, CNOT 3 0], Expval_PauliZ 0)"
proof -
  have s1: "layer_shape [[1, 2, 3], [4, 5, 6], [7, 8, 9], [10, 11, 12]]"
    by (simp add: layer_shape_def n_qubits_def less_Suc_eq eval_nat_numeral)
  have b: "bit_vector [1, 1, 0, 1]"
    by (simp add: bit_vector_def)
  show ?thesis
    using circuits_apply_fixed_gate_sequences
      [of "[1, 2, 3]" "[4, 5, 6]" "[[1, 2, 3], [4, 5, 6], [7, 8, 9], [10, 11, 12]]" "[]"
          "[[[1, 2, 3], [4, 5, 6], [7, 8, 9], [10, 11, 12]],
            [[0, 0, 0], [0, 0, 0], [0, 0, 0], [0, 0, 0]]]" "[1, 1, 0, 1]"]
      s1 layer_shape_zero b
    by (simp add: layer_ops_def)
qed

section \<open>The optimisation loops run a fixed number of steps\<close>

text \<open>
  Claim C3. The Ising loop is \<open>for i in range(100)\<close> with one call of \<open>opt.step\<close> per
  iteration: with a device that answers the tapes of the circuit and an optimiser that
  returns, it returns after exactly 100 calls, whatever the cost values
  (lemma \<open>ising_loop_calls_optimiser_100_times\<close>). The classifier's loop is
  \<open>for it in range(n_it)\<close> with \<open>n_it = 35\<close>, and makes exactly 35 calls when the name
  \<open>Y_train\<close> is bound (lemma \<open>vqc_loop_calls_optimiser_35_times\<close>). In the notebook as
  it is written the name is not bound: the line that assigns \<open>Y_train\<close> reads \<open>np\<close>,
  which does not exist, and raises NameError. The first iteration of the loop then raises
  NameError at \<open>Y_batch = Y_train[batch_index]\<close>, before its call of \<open>opt.step\<close>: the
  loop makes no optimiser step, not 35. This holds for every device and for every
  optimiser, also for one that would raise on its first call, so the optimiser is not
  reached.
\<close>

theorem classifier_loop_stops_at_unbound_Y_train:
  assumes "''np'' \<notin> set star"
    and "randint rng0 0 (length X) (batch_size X) = Inr (idx, g')"
    and "\<forall>i\<in>set idx. i < length X"
  shows "kernel_Y_train (vqc_globals star) y_train = None
       \<and> vqc_training execute adam_step randint opt0 rng0 weights0 bias0 X
            (kernel_Y_train (vqc_globals star) y_train)
          = Inl (NameError ''Y_train'')"
proof -
  from map_err_getitem_total [OF assms(3)] obtain Xb where Xb: "map_err (getitem X) idx = Inr Xb"
    by blast
  have "vqc_iteration execute adam_step randint X None 0 (vqc_start opt0 rng0 weights0 bias0)
        = Inl (NameError ''Y_train'')"
    using assms(2) Xb by (simp add: vqc_iteration_def vqc_start_def)
  then have "vqc_training execute adam_step randint opt0 rng0 weights0 bias0 X None
             = Inl (NameError ''Y_train'')"
    by (simp add: vqc_training_def n_it_positive)
  with kernel_Y_train_unbound [OF assms(1)] show ?thesis
    by simp
qed

theorem classifier_loop_stops_at_unbound_Y_train_witness:
  "''np'' \<notin> set [''circuit_drawer'', ''plot_histogram'']
   \<and> first_row_randint () 0 (length rows35) (batch_size rows35) = Inr ([0], ())
   \<and> kernel_Y_train (vqc_globals [''circuit_drawer'', ''plot_histogram'']) (replicate 35 1) = None
   \<and> vqc_training checking_device plain_adam first_row_randint () () (weights_init (\<lambda>n. 0))
        bias_init rows35
        (kernel_Y_train (vqc_globals [''circuit_drawer'', ''plot_histogram'']) (replicate 35 1))
      = Inl (NameError ''Y_train'')"
proof -
  have np: "''np'' \<notin> set [''circuit_drawer'', ''plot_histogram'']"
    by simp
  have draw: "first_row_randint () 0 (length rows35) (batch_size rows35) = Inr ([0], ())"
    by (simp add: first_row_randint_def rows35_def batch_size_def n_it_def)
  have range: "\<forall>i\<in>set [0]. i < length rows35"
    by (simp add: rows35_def)
  note stops = classifier_loop_stops_at_unbound_Y_train
    [where randint = first_row_randint and execute = checking_device and adam_step = plain_adam
       and y_train = "replicate 35 1" and ?opt0.0 = "()" and ?weights0.0 = "weights_init (\<lambda>n. 0)"
       and ?bias0.0 = bias_init, OF np draw range]
  from np draw stops [THEN conjunct1] stops [THEN conjunct2] show ?thesis
    by (intro conjI)
qed

section \<open>The shape of the trainable weights\<close>

text \<open>
  Claim C4. The initial weights have shape \<open>(n_layers, n_qubits, 3) = (2, 4, 3)\<close>, and
  the shape is kept after every iteration of the training loop. The loop rebinds
  \<open>weights\<close> to what \<open>opt.step\<close> returns and to nothing else, so the second half rests
  on the optimiser returning an array of the shape it was given; this is the hypothesis.
\<close>

theorem weights_shape_preserved:
  assumes "\<forall>st f w b st' w' b'.
             adam_step st f w b = Inr (st', w', b') \<and> has_shape3 2 4 3 w \<longrightarrow> has_shape3 2 4 3 w'"
  shows "n_layers = 2 \<and> n_qubits = 4
       \<and> has_shape3 2 4 3 (weights_init sample)
       \<and> (\<forall>k s. for_loop (vqc_iteration execute adam_step randint X Y) [0..<k]
                   (vqc_start opt0 rng0 (weights_init sample) bias_init) = Inr s
                 \<longrightarrow> has_shape3 2 4 3 (v_weights s))"
proof -
  have init: "has_shape3 2 4 3 (weights_init sample)"
    using weights_init_shape [of sample] by (simp add: n_layers_def n_qubits_def)
  have "has_shape3 2 4 3 (v_weights s)"
    if run: "for_loop (vqc_iteration execute adam_step randint X Y) [0..<k]
               (vqc_start opt0 rng0 (weights_init sample) bias_init) = Inr s" for k s
  proof (rule for_loop_invariant [where I = "\<lambda>t. has_shape3 2 4 3 (v_weights t)", OF run])
    show "has_shape3 2 4 3 (v_weights (vqc_start opt0 rng0 (weights_init sample) bias_init))"
      using init by (simp add: vqc_start_def)
  next
    fix i t t'
    assume shape: "has_shape3 2 4 3 (v_weights t)"
      and step: "vqc_iteration execute adam_step randint X Y i t = Inr t'"
    from vqc_iteration_result(1) [OF step] obtain f st' b' where
      "adam_step (v_opt t) f (v_weights t) (v_bias t) = Inr (st', v_weights t', b')"
      by blast
    with assms shape show "has_shape3 2 4 3 (v_weights t')"
      by blast
  qed
  with init show ?thesis
    by (simp add: n_layers_def n_qubits_def)
qed

theorem weights_shape_preserved_witness:
  "has_shape3 2 4 3 (weights_init (\<lambda>n. 0))
   \<and> (\<exists>s. for_loop (vqc_iteration checking_device plain_adam first_row_randint rows35 (Some labels35))
             [0..<n_it] (vqc_start () () (weights_init (\<lambda>n. 0)) bias_init) = Inr s
          \<and> has_shape3 2 4 3 (v_weights s))"
proof -
  note kept = weights_shape_preserved [where adam_step = plain_adam and execute = checking_device
      and randint = first_row_randint and X = rows35 and Y = "Some labels35" and ?opt0.0 = "()"
      and ?rng0.0 = "()" and sample = "\<lambda>n. 0", OF plain_adam_preserves]
  from kept have init: "has_shape3 2 4 3 (weights_init (\<lambda>n. 0))"
    by (rule conjunct1 [OF conjunct2 [OF conjunct2]])
  from kept have every: "\<forall>k s. for_loop
        (vqc_iteration checking_device plain_adam first_row_randint rows35 (Some labels35)) [0..<k]
        (vqc_start () () (weights_init (\<lambda>n. 0)) bias_init) = Inr s
      \<longrightarrow> has_shape3 2 4 3 (v_weights s)"
    by (rule conjunct2 [OF conjunct2 [OF conjunct2]])
  from plain_training_runs obtain s where
    s: "for_loop (vqc_iteration checking_device plain_adam first_row_randint rows35 (Some labels35))
          [0..<n_it] (vqc_start () () (weights_init (\<lambda>n. 0)) bias_init) = Inr s"
    by (rule exE)
  from every s have "has_shape3 2 4 3 (v_weights s)"
    by blast
  with init s show ?thesis
    by (intro conjI exI [of _ s])
qed

section \<open>The four boolean feature columns\<close>

text \<open>
  Claim C5. The model variables are \<open>is_child\<close>, \<open>Pclass_1\<close>, \<open>Pclass_2\<close> and
  \<open>Sex_female\<close>; every row of the selected columns, hence every row of \<open>X_train\<close>, of
  \<open>X_test\<close> and of every batch drawn from \<open>X_train\<close>, is a vector of four values in
  \<open>{0, 1}\<close>, and its first entry \<open>is_child\<close> is 1 exactly when the filled-in age is
  strictly below 12, and 0 otherwise.
\<close>

theorem features_are_four_booleans:
  assumes "train_test_features split train = Inr (Xtr, Xte, ytr, yte)"
  shows "model_vars = [''is_child'', ''Pclass_1'', ''Pclass_2'', ''Sex_female'']
       \<and> (\<forall>x\<in>set Xtr \<union> set Xte. bit_vector x)
       \<and> (\<forall>idx Xb. map_err (getitem Xtr) idx = Inr Xb \<longrightarrow> (\<forall>x\<in>set Xb. bit_vector x))
       \<and> (\<exists>X. features train = Inr X \<and> length X = length train
              \<and> set Xtr \<subseteq> set X \<and> set Xte \<subseteq> set X
              \<and> (\<forall>x\<in>set X. bit_vector x)
              \<and> (\<forall>i<length train. X ! i ! 0
                    = (if \<exists>v. fillna_median (map Age train) ! i = Some v \<and> v < 12
                       then 1 else 0)))"
proof -
  from assms obtain X train_idx test_idx where X: "features train = Inr X"
    and tr: "map_err (getitem X) train_idx = Inr Xtr"
    and te: "map_err (getitem X) test_idx = Inr Xte"
    by (auto simp add: train_test_features_def bind_err_eq_Inr)
  note sound = features_sound [OF X]
  from map_err_getitem_subset [OF tr] map_err_getitem_subset [OF te]
  have sub: "set Xtr \<subseteq> set X" "set Xte \<subseteq> set X" .
  with sound(2) have bits: "\<forall>x\<in>set Xtr \<union> set Xte. bit_vector x"
    by blast
  have batch: "\<forall>idx Xb. map_err (getitem Xtr) idx = Inr Xb \<longrightarrow> (\<forall>x\<in>set Xb. bit_vector x)"
    using map_err_getitem_subset bits by blast
  from X sound sub have "\<exists>X. features train = Inr X \<and> length X = length train
              \<and> set Xtr \<subseteq> set X \<and> set Xte \<subseteq> set X
              \<and> (\<forall>x\<in>set X. bit_vector x)
              \<and> (\<forall>i<length train. X ! i ! 0
                    = (if \<exists>v. fillna_median (map Age train) ! i = Some v \<and> v < 12
                       then 1 else 0))"
    by (intro exI [of _ X] conjI)
  with bits batch show ?thesis
    by (simp add: model_vars_def)
qed

theorem features_are_four_booleans_witness:
  "train_test_features last_row_split four_passengers
     = Inr ([[1, 1, 0, 1], [1, 0, 0, 0], [0, 0, 1, 1]], [[1, 0, 1, 0]], [1, 0, 1], [0])
   \<and> bit_vector [1, 1, 0, 1] \<and> bit_vector [1, 0, 0, 0] \<and> bit_vector [0, 0, 1, 1]
   \<and> bit_vector [1, 0, 1, 0]"
  using features_are_four_booleans [OF four_passengers_split] four_passengers_split
  by simp

section \<open>The devices\<close>

text \<open>
  Claim C6. The Ising notebook's device has exactly 3 wires and the classifier's exactly
  4, both between 3 and 4, and the device is the same after any number of iterations of
  either optimisation loop: no statement assigns \<open>dev\<close> again.
\<close>

theorem device_wires_fixed:
  "dev_wires ising_dev = 3 \<and> dev_wires vqc_dev = 4
   \<and> 3 \<le> dev_wires ising_dev \<and> dev_wires ising_dev \<le> 4
   \<and> 3 \<le> dev_wires vqc_dev \<and> dev_wires vqc_dev \<le> 4
   \<and> (\<forall>k s0 s. ising_start execute opt0 p1 p2 = Inr s0
                 \<and> for_loop (ising_iteration execute sgd_step) [0..<k] s0 = Inr s
               \<longrightarrow> g_dev s = ising_dev)
   \<and> (\<forall>k s. for_loop (vqc_iteration execute' adam_step randint X Y) [0..<k]
                (vqc_start opt1 rng0 weights0 bias0) = Inr s
             \<longrightarrow> v_dev s = vqc_dev)"
proof -
  have ising: "\<forall>k s0 s. ising_start execute opt0 p1 p2 = Inr s0
                 \<and> for_loop (ising_iteration execute sgd_step) [0..<k] s0 = Inr s
               \<longrightarrow> g_dev s = ising_dev"
    by (intro allI impI, elim conjE, rule ising_loop_keeps_dev)
  have vqc: "\<forall>k s. for_loop (vqc_iteration execute' adam_step randint X Y) [0..<k]
                (vqc_start opt1 rng0 weights0 bias0) = Inr s
             \<longrightarrow> v_dev s = vqc_dev"
    by (intro allI impI, rule vqc_loop_keeps_dev)
  have "3 \<le> dev_wires ising_dev" "dev_wires ising_dev \<le> 4"
    "3 \<le> dev_wires vqc_dev" "dev_wires vqc_dev \<le> 4"
    by (simp_all add: device_wires)
  with device_wires ising vqc show ?thesis
    by (intro conjI)
qed

theorem device_wires_fixed_witness:
  "dev_wires ising_dev = 3 \<and> dev_wires vqc_dev = 4
   \<and> (\<exists>s. ising_training checking_device plain_sgd () [0, 0, 0] [0, 0, 0] = Inr s
          \<and> g_dev s = ising_dev)
   \<and> (\<exists>s. vqc_training checking_device plain_adam first_row_randint () () (weights_init (\<lambda>n. 0))
             bias_init rows35 (Some labels35) = Inr s
          \<and> v_dev s = vqc_dev)"
proof -
  note fixed = device_wires_fixed [where execute = checking_device and sgd_step = plain_sgd
      and ?opt0.0 = "()" and ?p1.0 = "[0, 0, 0]" and ?p2.0 = "[0, 0, 0]"
      and execute' = checking_device and adam_step = plain_adam and randint = first_row_randint
      and X = rows35 and Y = "Some labels35" and ?opt1.0 = "()" and ?rng0.0 = "()"
      and ?weights0.0 = "weights_init (\<lambda>n. 0)" and ?bias0.0 = bias_init]
  from fixed have wires: "dev_wires ising_dev = 3" "dev_wires vqc_dev = 4"
    by (rule conjunct1, rule conjunct1 [OF conjunct2])
  from fixed have ising: "\<forall>k s0 s. ising_start checking_device () [0, 0, 0] [0, 0, 0] = Inr s0
        \<and> for_loop (ising_iteration checking_device plain_sgd) [0..<k] s0 = Inr s
      \<longrightarrow> g_dev s = ising_dev"
    by (rule conjunct1 [OF conjunct2 [OF conjunct2 [OF conjunct2 [OF conjunct2
          [OF conjunct2 [OF conjunct2]]]]]])
  from fixed have vqc: "\<forall>k s. for_loop
        (vqc_iteration checking_device plain_adam first_row_randint rows35 (Some labels35)) [0..<k]
        (vqc_start () () (weights_init (\<lambda>n. 0)) bias_init) = Inr s
      \<longrightarrow> v_dev s = vqc_dev"
    by (rule conjunct2 [OF conjunct2 [OF conjunct2 [OF conjunct2 [OF conjunct2
          [OF conjunct2 [OF conjunct2]]]]]])
  from plain_ising_training_runs
  obtain s where s: "ising_training checking_device plain_sgd () [0, 0, 0] [0, 0, 0] = Inr s"
    by blast
  then obtain s0 where s0: "ising_start checking_device () [0, 0, 0] [0, 0, 0] = Inr s0"
    "for_loop (ising_iteration checking_device plain_sgd) [0..<100] s0 = Inr s"
    unfolding ising_training_def bind_err_eq_Inr by (elim exE conjE)
  from ising s0 have g: "g_dev s = ising_dev"
    by blast
  from plain_training_runs obtain t where
    t: "for_loop (vqc_iteration checking_device plain_adam first_row_randint rows35 (Some labels35))
          [0..<n_it] (vqc_start () () (weights_init (\<lambda>n. 0)) bias_init) = Inr t"
    by (rule exE)
  from vqc t have v: "v_dev t = vqc_dev"
    by blast
  from t have t': "vqc_training checking_device plain_adam first_row_randint () ()
      (weights_init (\<lambda>n. 0)) bias_init rows35 (Some labels35) = Inr t"
    by (simp only: vqc_training_def)
  from wires s g t' v show ?thesis
    by (intro conjI exI [of _ s] exI [of _ t])
qed

section \<open>Exceptions reach the user\<close>



section \<open>Properties of the loss and the accuracy\<close>

text \<open>
  Claim C8. For equal-length, non-empty \<open>labels\<close> and \<open>predictions\<close>, \<open>squareLoss\<close>
  returns the mean squared error \<open>(1/n) * (\<Sum>i<n. (labels i - predictions i)\<^sup>2)\<close>; for
  empty inputs the division by \<open>len(labels) = 0\<close> raises, so there is no result.
\<close>

theorem squareLoss_mean_squared_error:
  "(length labels = length predictions \<and> labels \<noteq> [] \<longrightarrow>
      squareLoss labels predictions
        = Inr ((1 / real (length labels))
               * (\<Sum>i<length labels. (labels ! i - predictions ! i)\<^sup>2)))
   \<and> squareLoss [] [] = Inl ZeroDivisionError"
proof -
  have "squareLoss [] [] = Inl ZeroDivisionError"
    by (simp add: squareLoss_def)
  moreover have "squareLoss labels predictions
        = Inr ((1 / real (length labels))
               * (\<Sum>i<length labels. (labels ! i - predictions ! i)\<^sup>2))"
    if "length labels = length predictions" and "labels \<noteq> []"
  proof -
    have "squareLoss_loop 0 (zip labels predictions)
          = (\<Sum>i<length labels. (labels ! i - predictions ! i)\<^sup>2)"
      using sum_list_zip_nth [OF that(1), of "\<lambda>l p. (l - p)\<^sup>2"]
      by (simp add: squareLoss_loop_sum)
    with that(2) show ?thesis
      by (simp add: squareLoss_def)
  qed
  ultimately show ?thesis by blast
qed

theorem squareLoss_mean_squared_error_witness:
  "length [1, -1 :: real] = length [1, 1 :: real] \<and> [1, -1 :: real] \<noteq> []
   \<and> squareLoss [1, -1] [1, 1] = Inr 2
   \<and> squareLoss [] [] = Inl ZeroDivisionError"
  using squareLoss_mean_squared_error [of "[1, -1]" "[1, 1]"]
  by (simp add: lessThan_Suc numeral_2_eq_2)

text \<open>
  Claim C9. For equal-length, non-empty \<open>labels\<close> and \<open>predictions\<close>, \<open>accuracy\<close>
  returns \<open>k / n\<close>, where \<open>k\<close> counts the indices with \<open>|labels i - predictions i| < 1e-5\<close>
  and \<open>n\<close> is the common length; the value lies in the closed interval from 0 to 1.
\<close>

theorem accuracy_fraction_in_unit_interval:
  assumes "length labels = length predictions" and "labels \<noteq> []"
  shows "\<exists>a. accuracy labels predictions = Inr a
           \<and> a = real (card {i. i < length labels
                                \<and> \<bar>labels ! i - predictions ! i\<bar> < 1 / 100000})
                 / real (length labels)
           \<and> 0 \<le> a \<and> a \<le> 1"
proof -
  let ?k = "card {i. i < length labels \<and> \<bar>labels ! i - predictions ! i\<bar> < 1 / 100000}"
  have count: "accuracy_loop 0 (zip labels predictions) = ?k"
    using length_filter_zip_card [OF assms(1), of "\<lambda>l p. \<bar>l - p\<bar> < 1 / 100000"]
    by (simp add: accuracy_loop_count)
  have n: "0 < length labels"
    using assms(2) by simp
  have val: "accuracy labels predictions = Inr (real ?k / real (length labels))"
    using n count by (simp add: accuracy_def)
  have "?k \<le> length labels"
    by (rule card_indices_le)
  then have "real ?k / real (length labels) \<le> 1"
    using n by simp
  moreover have "0 \<le> real ?k / real (length labels)"
    by simp
  ultimately show ?thesis
    using val by blast
qed

theorem accuracy_fraction_in_unit_interval_witness:
  "length [1, -1 :: real] = length [1, 1 :: real] \<and> [1, -1 :: real] \<noteq> []
   \<and> accuracy [1, -1] [1, 1] = Inr (1 / 2)
   \<and> (\<exists>a. accuracy [1, -1] [1, 1] = Inr a \<and> 0 \<le> a \<and> a \<le> 1)"
proof -
  have h1: "length [1, -1 :: real] = length [1, 1 :: real]" by simp
  have h2: "[1, -1 :: real] \<noteq> []" by simp
  have v: "accuracy [1, -1] [1, 1] = Inr (1 / 2)"
    by (simp add: accuracy_def)
  from accuracy_fraction_in_unit_interval [OF h1 h2] v h1 h2 show ?thesis
    by blast
qed

section \<open>The training labels\<close>

text \<open>
  Claim C10 is about the label encoding \<open>y \<mapsto> 2 * y - 1\<close>, and the line for \<open>Y_test\<close>
  computes it as the claim says (lemma \<open>label_encoding_round_trip\<close>). The line for
  \<open>Y_train\<close> does not: it is written with \<open>np.ones\<close>, and the notebook binds numpy as
  \<open>npl\<close> only. Unless the star import brings in a name \<open>np\<close>, evaluating the line
  raises NameError for every label column, and \<open>Y_train\<close> is never bound.
\<close>

theorem Y_train_raises_NameError:
  assumes "''np'' \<notin> set star"
  shows "Y_train (vqc_globals star) y = Inl (NameError ''np'')"
  using assms by (simp add: Y_train_def labels_pm_def npl_bound np_unbound)

theorem Y_train_raises_NameError_witness:
  "''np'' \<notin> set [''circuit_drawer'', ''plot_histogram'']
   \<and> Y_train (vqc_globals [''circuit_drawer'', ''plot_histogram'']) [0, 1] = Inl (NameError ''np'')
   \<and> Y_test (vqc_globals [''circuit_drawer'', ''plot_histogram'']) [0, 1] = Inr [-1, 1]"
proof -
  have h: "''np'' \<notin> set [''circuit_drawer'', ''plot_histogram'']"
    by simp
  from Y_train_raises_NameError [OF h, of "[0, 1]"] h show ?thesis
    by (simp add: Y_test_labels)
qed

end
